theory Spec2Isabelle
  imports Complex_Main "HOL-Library.Word" "HOL-Library.Signed_Division"
begin

section \<open>Basic types\<close>

type_synonym byte = "8 word"

text \<open>Go strings are byte sequences; \<open>[]byte(s)\<close> is the same bytes.\<close>

definition bytesOfString :: "string \<Rightarrow> byte list" where
  "bytesOfString s = map of_char s"

text \<open>
  The image types named in the sources (\<open>imageTypeUnknown\<close>, \<open>imageTypeJPEG\<close>, ...).
  Their declaration is not among the source files; the constructors are the names the
  handler and the raster adapter use.
\<close>

datatype imageType =
  imageTypeUnknown | imageTypeJPEG | imageTypePNG | imageTypeWEBP | imageTypeGIF
  | imageTypeICO | imageTypeSVG | imageTypeHEIC | imageTypeAVIF | imageTypeBMP | imageTypeTIFF

datatype resizeType = resizeFit | resizeFill | resizeFillDown | resizeForce | resizeAuto

text \<open>
  Modelled from the spec: the declaration of \<open>processingOptions\<close> is missing from the
  sources. The fields are those of the spec's option record that the handler, the
  ETag computer and the tests read or write; the float fields hold parsed decimals only
  and are rationals here.
\<close>

record processingOptions =
  ResizingType :: resizeType
  Width :: int
  Height :: int
  Dpr :: rat
  Enlarge :: bool
  Blur :: rat
  Sharpen :: rat
  Quality :: int
  Format :: imageType
  PreferWebP :: bool
  EnforceWebP :: bool
  StripMetadata :: bool
  CacheBuster :: string
  Filename :: string
  UsedPresets :: "string list"

text \<open>\<open>imageData\<close>: the bytes of an image and its detected type.\<close>

record imageData =
  Data :: "byte list"
  Type :: imageType

text \<open>A URL option atom \<open>name:arg1:arg2:...\<close>, as the tests build presets from.\<close>

datatype urlOption = urlOption (Name: string) (Args: "string list")

type_synonym urlOptions = "urlOption list"

text \<open>
  Modelled from the spec: the declaration of the configuration record \<open>conf\<close> is
  missing from the sources; these are the options the modelled code reads.
\<close>

record config =
  Concurrency :: int
  WriteTimeout :: int
  TTL :: int
  CacheControlPassthrough :: bool
  ETagEnabled :: bool
  GZipCompression :: int
  EnableWebpDetection :: bool
  EnforceWebp :: bool
  EnableClientHints :: bool
  OnlyPresets :: bool
  Presets :: "(string \<times> urlOptions) list"
  SkipProcessingFormats :: "imageType list"

text \<open>Go errors: an \<open>*imgproxyError\<close> with its status and its unexpected flag, or any other error.\<close>

datatype error =
  imgproxyError (StatusCode: int) (Message: string) (PublicMessage: string) (Unexpected: bool)
  | otherError string

section \<open>Strings\<close>

text \<open>\<open>strings.Contains\<close>.\<close>

fun strContains :: "string \<Rightarrow> string \<Rightarrow> bool" where
  "strContains [] sub = (sub = [])"
| "strContains (c # s) sub = (take (length sub) (c # s) = sub \<or> strContains s sub)"

text \<open>\<open>strings.Join\<close>.\<close>

fun strJoin :: "string list \<Rightarrow> string \<Rightarrow> string" where
  "strJoin [] sep = []"
| "strJoin [x] sep = x"
| "strJoin (x # y # ys) sep = x @ sep @ strJoin (y # ys) sep"

text \<open>The verb \<open>%d\<close> of \<open>fmt.Sprintf\<close>: the decimal digits, with a minus sign below zero.\<close>

definition digitChar :: "nat \<Rightarrow> char" where
  "digitChar d = ''0123456789'' ! (d mod 10)"

function natDigits :: "nat \<Rightarrow> string" where
  "natDigits n = (if n < 10 then [digitChar n] else natDigits (n div 10) @ [digitChar (n mod 10)])"
  by pat_completeness auto
termination
  by (relation "measure id") auto

declare natDigits.simps [simp del]

definition fmtInt :: "int \<Rightarrow> string" where
  "fmtInt i = (if i < 0 then CHR ''-'' # natDigits (nat (- i)) else natDigits (nat i))"

section \<open>The HTTP request and response\<close>

text \<open>
  \<open>http.Header\<close> with the keys as the handler writes them; \<open>Get\<close> of an absent
  key is the empty string.
\<close>

type_synonym header = "string \<rightharpoonup> string"

definition headerGet :: "header \<Rightarrow> string \<Rightarrow> string" where
  "headerGet h k = (case h k of None \<Rightarrow> [] | Some v \<Rightarrow> v)"

record request =
  RequestURI :: string
  Header :: header

text \<open>
  One body stream: the writer \<open>prerespondWithImage\<close> returned (the response writer
  itself, or a gzip writer around it) and the bytes written into it.
\<close>

record bodyStream =
  gzipped :: bool
  payload :: "byte list"

text \<open>
  The response writer \<open>rw\<close> and what the handler did to it: the header map, the
  status of an explicit \<open>WriteHeader\<close>, the body streams written, and the calls of the
  raster pipeline \<open>processImage\<close> with their arguments.
\<close>

record responseWriter =
  rwHeader :: header
  rwStatus :: "int option"
  rwStreams :: "bodyStream list"
  rasterCalls :: "(processingOptions \<times> imageData) list"

definition headerSet :: "string \<Rightarrow> string \<Rightarrow> responseWriter \<Rightarrow> responseWriter" where
  "headerSet k v rw = rw\<lparr>rwHeader := (rwHeader rw)(k \<mapsto> v)\<rparr>"

text \<open>
  The collaborators the handler calls that are not among the sources: the parser, the
  downloader, the deadline check, the raster pipeline, the format tables, the clock.
  \<open>downloadImage\<close> returns its whole tuple (image data, cache-control, expires, error);
  \<open>processImage\<close> returns the bytes it wrote to the writer and its error;
  \<open>ctxDone k\<close> says whether the request context is done at the \<open>k\<close>-th
  \<open>checkTimeout\<close>; \<open>now\<close> is \<open>time.Now()\<close> in nanoseconds and
  \<open>formatHTTPTime\<close> is \<open>Format(http.TimeFormat)\<close>.
\<close>

record env =
  parsePath :: "request \<Rightarrow> error + (string \<times> processingOptions)"
  downloadImage :: "string \<Rightarrow> imageData \<times> string \<times> string \<times> error option"
  fallbackImage :: "imageData option"
  ctxDone :: "nat \<Rightarrow> bool"
  timeoutError :: error
  processImage :: "processingOptions \<Rightarrow> imageData \<Rightarrow> byte list \<times> error option"
  imageTypeSaveSupport :: "imageType \<Rightarrow> bool"
  imageTypeGoodForWeb :: "imageType \<Rightarrow> bool"
  Mime :: "imageType \<Rightarrow> string"
  ContentDisposition :: "imageType \<Rightarrow> string \<Rightarrow> string"
  ContentDispositionFromURL :: "imageType \<Rightarrow> string \<Rightarrow> string"
  now :: int
  formatHTTPTime :: "int \<Rightarrow> string"

section \<open>\<open>initProcessingHandler\<close> and \<open>prerespondWithImage\<close>\<close>

definition headerVaryValue :: "config \<Rightarrow> string" where
  "headerVaryValue conf =
     strJoin
       ((if EnableWebpDetection conf \<or> EnforceWebp conf then [''Accept''] else [])
        @ (if GZipCompression conf > 0 then [''Accept-Encoding''] else [])
        @ (if EnableClientHints conf then [''DPR'', ''Viewport-Width'', ''Width''] else []))
       '', ''"

text \<open>
  \<open>time.Second * time.Duration(conf.TTL)\<close>: a product of 64-bit signed integers,
  which wraps around.
\<close>

definition ttlDuration :: "int \<Rightarrow> int" where
  "ttlDuration ttl = sint ((1000000000 :: 64 word) * word_of_int ttl)"

text \<open>
  \<open>prerespondWithImage\<close> (lines 57-106): sets the headers and returns the writer of the
  body; the second component says whether that writer is the gzip writer.
\<close>

definition prerespondWithImage ::
  "config \<Rightarrow> env \<Rightarrow> string \<Rightarrow> string \<Rightarrow> string \<Rightarrow> processingOptions \<Rightarrow> request
     \<Rightarrow> responseWriter \<Rightarrow> responseWriter \<times> bool" where
  "prerespondWithImage conf e imageURL cacheControl0 expires0 po r rw0 =
    (let contentDisposition =
           (if length (Filename po) > 0 then ContentDisposition e (Format po) (Filename po)
            else ContentDispositionFromURL e (Format po) imageURL);
         rw1 = headerSet ''Content-Type'' (Mime e (Format po)) rw0;
         rw2 = headerSet ''Content-Disposition'' contentDisposition rw1;
         cacheControl1 = (if \<not> CacheControlPassthrough conf then [] else cacheControl0);
         expires1 = (if \<not> CacheControlPassthrough conf then [] else expires0);
         synth = (length cacheControl1 = 0 \<and> length expires1 = 0);
         cacheControl = (if synth then ''max-age='' @ fmtInt (TTL conf) @ '', public''
                         else cacheControl1);
         expires = (if synth then formatHTTPTime e (now e + ttlDuration (TTL conf))
                    else expires1);
         rw3 = (if length cacheControl > 0 then headerSet ''Cache-Control'' cacheControl rw2 else rw2);
         rw4 = (if length expires > 0 then headerSet ''Expires'' expires rw3 else rw3);
         rw5 = (if length (headerVaryValue conf) > 0 then headerSet ''Vary'' (headerVaryValue conf) rw4
                else rw4)
     in if GZipCompression conf > 0
           \<and> strContains (headerGet (Header r) ''Accept-Encoding'') ''gzip''
        then (headerSet ''Content-Encoding'' ''gzip'' rw5, True)
        else (rw5, False))"

section \<open>The ETag computer\<close>

text \<open>
  \<open>hex.EncodeToString\<close>: two lower-case hexadecimal digits for each byte.
\<close>

definition hexDigit :: "nat \<Rightarrow> char" where
  "hexDigit n = ''0123456789abcdef'' ! (n mod 16)"

definition hexEncodeToString :: "byte list \<Rightarrow> string" where
  "hexEncodeToString bs = concat (map (\<lambda>b. [hexDigit (unat b div 16), hexDigit (unat b mod 16)]) bs)"

text \<open>
  The library functions the ETag computer calls: SHA-256, and what the JSON encoder
  (created with \<open>SetEscapeHTML(false)\<close> and \<open>SetIndent("", "")\<close>) writes for the
  configuration and for an option record; and the constant \<open>version\<close>.
\<close>

record codec =
  sha256 :: "byte list \<Rightarrow> byte list"
  encodeConf :: "config \<Rightarrow> byte list"
  encodePO :: "processingOptions \<Rightarrow> byte list"
  version :: string

text \<open>
  An \<open>eTagCalc\<close> of the pool: a hash state, here the bytes written to it since its
  last \<open>Reset\<close>, and an encoder that writes into that hash. A calculator taken from
  the pool holds whatever its last user left in it.
\<close>

record eTagCalc =
  hashInput :: "byte list"

definition hashReset :: "eTagCalc \<Rightarrow> eTagCalc" where
  "hashReset c = c\<lparr>hashInput := []\<rparr>"

definition hashWrite :: "byte list \<Rightarrow> eTagCalc \<Rightarrow> eTagCalc" where
  "hashWrite bs c = c\<lparr>hashInput := hashInput c @ bs\<rparr>"

definition hashSum :: "codec \<Rightarrow> eTagCalc \<Rightarrow> byte list" where
  "hashSum lib c = sha256 lib (hashInput c)"

text \<open>
  \<open>calcETag\<close> (lines 250-265), on the calculator \<open>c0\<close> that \<open>eTagCalcPool.Get()\<close>
  returned; the second component is the calculator put back into the pool.
\<close>

definition calcETag ::
  "codec \<Rightarrow> config \<Rightarrow> eTagCalc \<Rightarrow> imageData \<Rightarrow> processingOptions \<Rightarrow> string \<times> eTagCalc" where
  "calcETag lib conf c0 imgdata po =
    (let c1 = hashReset c0;
         c2 = hashWrite (Data imgdata) c1;
         footprint = hashSum lib c2;
         c3 = hashReset c2;
         c4 = hashWrite footprint c3;
         c5 = hashWrite (bytesOfString (version lib)) c4;
         c6 = hashWrite (encodeConf lib conf) c5;
         c7 = hashWrite (encodePO lib po) c6
     in (hexEncodeToString (hashSum lib c7), c7))"

section \<open>\<open>handleProcessing\<close>\<close>

datatype outcome = Returned | Panicked error

text \<open>\<open>respondWithNotModified\<close> (lines 108-111).\<close>

definition respondWithNotModified :: "responseWriter \<Rightarrow> responseWriter" where
  "respondWithNotModified rw = rw\<lparr>rwStatus := Some 304\<rparr>"

text \<open>Writing \<open>bs\<close> into the writer that \<open>prerespondWithImage\<close> returned.\<close>

definition writeBody :: "bool \<Rightarrow> byte list \<Rightarrow> responseWriter \<Rightarrow> responseWriter" where
  "writeBody gz bs rw = rw\<lparr>rwStreams := rwStreams rw @ [\<lparr>gzipped = gz, payload = bs\<rparr>]\<rparr>"

text \<open>
  The condition of the skip-processing shortcut (lines 178-181): the list is not empty,
  the requested format is the source's or unknown, and the loop finds the source's type
  in the list.
\<close>

definition skipProcessing :: "config \<Rightarrow> processingOptions \<Rightarrow> imageData \<Rightarrow> bool" where
  "skipProcessing conf po imgdata \<longleftrightarrow>
     length (SkipProcessingFormats conf) > 0
     \<and> (Type imgdata = Format po \<or> Format po = imageTypeUnknown)
     \<and> Type imgdata \<in> set (SkipProcessingFormats conf)"

text \<open>Format resolution (lines 192-203).\<close>

definition resolveFormat :: "env \<Rightarrow> processingOptions \<Rightarrow> imageData \<Rightarrow> processingOptions" where
  "resolveFormat e po imgdata =
    (if Format po = imageTypeUnknown then
       (if PreferWebP po \<and> imageTypeSaveSupport e imageTypeWEBP then po\<lparr>Format := imageTypeWEBP\<rparr>
        else if imageTypeSaveSupport e (Type imgdata) \<and> imageTypeGoodForWeb e (Type imgdata)
          then po\<lparr>Format := Type imgdata\<rparr>
        else po\<lparr>Format := imageTypeJPEG\<rparr>)
     else if EnforceWebP po \<and> imageTypeSaveSupport e imageTypeWEBP then po\<lparr>Format := imageTypeWEBP\<rparr>
     else po)"

text \<open>
  Lines 178-222: the shortcut, or format resolution and the raster pipeline; then the
  third \<open>checkTimeout\<close>.
\<close>

definition respondWithImage ::
  "config \<Rightarrow> env \<Rightarrow> request \<Rightarrow> string \<Rightarrow> processingOptions \<Rightarrow> imageData \<Rightarrow> string \<Rightarrow> string
     \<Rightarrow> responseWriter \<Rightarrow> responseWriter \<times> outcome" where
  "respondWithImage conf e r imgURL po imgdata cacheControl expires rw =
    (if skipProcessing conf po imgdata then
       (let po' = po\<lparr>Format := Type imgdata\<rparr>;
            (rw1, gz) = prerespondWithImage conf e imgURL cacheControl expires po' r rw
        in (writeBody gz (Data imgdata) rw1, Returned))
     else
       (let po' = resolveFormat e po imgdata;
            (rw1, gz) = prerespondWithImage conf e imgURL cacheControl expires po' r rw;
            (written, err) = processImage e po' imgdata;
            rw2 = (writeBody gz written rw1)\<lparr>rasterCalls := rasterCalls rw1 @ [(po', imgdata)]\<rparr>
        in case err of
             Some er \<Rightarrow> (rw2, Panicked er)
           | None \<Rightarrow> if ctxDone e 3 then (rw2, Panicked (timeoutError e)) else (rw2, Returned)))"

text \<open>
  Lines 166-176: the conditional request. \<open>c0\<close> is the calculator taken from the pool.
\<close>

definition respondConditional ::
  "config \<Rightarrow> env \<Rightarrow> codec \<Rightarrow> eTagCalc \<Rightarrow> request \<Rightarrow> string \<Rightarrow> processingOptions \<Rightarrow> imageData
     \<Rightarrow> string \<Rightarrow> string \<Rightarrow> responseWriter \<Rightarrow> responseWriter \<times> outcome" where
  "respondConditional conf e lib c0 r imgURL po imgdata cacheControl expires rw =
    (let rw1 = (if ETagEnabled conf
                then headerSet ''ETag'' (fst (calcETag lib conf c0 imgdata po)) rw else rw)
     in if ETagEnabled conf
           \<and> fst (calcETag lib conf c0 imgdata po) = headerGet (Header r) ''If-None-Match''
        then (respondWithNotModified rw1, Returned)
        else if ctxDone e 2 then (rw1, Panicked (timeoutError e))
        else respondWithImage conf e r imgURL po imgdata cacheControl expires rw1)"

text \<open>
  \<open>handleProcessing\<close> from line 137 on, for a request the semaphore admitted: parse,
  download (with the fallback image), the first \<open>checkTimeout\<close>, and the rest.
  A panic leaves the function with what was written so far.
\<close>

definition handleProcessing ::
  "config \<Rightarrow> env \<Rightarrow> codec \<Rightarrow> eTagCalc \<Rightarrow> request \<Rightarrow> responseWriter \<Rightarrow> responseWriter \<times> outcome" where
  "handleProcessing conf e lib c0 r rw =
    (case parsePath e r of
       Inl err \<Rightarrow> (rw, Panicked err)
     | Inr (imgURL, po) \<Rightarrow>
        (case downloadImage e imgURL of
           (imgdata0, cacheControl, expires, derr) \<Rightarrow>
            (case (case derr of
                     None \<Rightarrow> Inr imgdata0
                   | Some err \<Rightarrow>
                       (case fallbackImage e of None \<Rightarrow> Inl err | Some fb \<Rightarrow> Inr fb)) of
               Inl err \<Rightarrow> (rw, Panicked err)
             | Inr imgdata \<Rightarrow>
                 if ctxDone e 1 then (rw, Panicked (timeoutError e))
                 else respondConditional conf e lib c0 r imgURL po imgdata cacheControl expires rw)))"

section \<open>The raster adapter: targets, sinks and \<open>SaveAsIco\<close>\<close>

text \<open>
  A function that returns a value or panics.
\<close>

datatype 'a exec = Return 'a | Panic string

text \<open>
  A sink: a value behind an \<open>io.Writer\<close> (the response writer, a gzip writer, a
  \<open>*bytes.Buffer\<close>). \<open>methods\<close> is the method set of its dynamic type, \<open>written\<close>
  the bytes written so far, \<open>budget\<close> the number of \<open>Write\<close> calls that still succeed
  (\<open>None\<close>: all of them), \<open>flushes\<close> and \<open>closes\<close> count the calls of \<open>Flush\<close>
  and \<open>Close\<close>. Sinks live in a store, by address.
\<close>

record sink =
  methods :: "string list"
  written :: "byte list"
  budget :: "nat option"
  flushes :: nat
  closes :: nat

type_synonym sinks = "nat \<rightharpoonup> sink"

text \<open>
  A value held in an \<open>interface{}\<close>, as far as the adapter stores any: a raw
  \<open>unsafe.Pointer\<close>, a \<open>bytes.Buffer\<close> held by value, or a reference to a sink.
  The method set of \<open>unsafe.Pointer\<close> is empty; so is that of \<open>bytes.Buffer\<close>, whose
  methods all have pointer receivers; a reference has the methods of its sink.
\<close>

datatype goValue = UnsafePointer nat | BytesBuffer "byte list" | SinkRef nat

fun methodSet :: "sinks \<Rightarrow> goValue \<Rightarrow> string list" where
  "methodSet ss (UnsafePointer p) = []"
| "methodSet ss (BytesBuffer b) = []"
| "methodSet ss (SinkRef a) = (case ss a of None \<Rightarrow> [] | Some s \<Rightarrow> methods s)"

text \<open>A type assertion \<open>v.(I)\<close> succeeds when the dynamic type of \<open>v\<close> has the methods of \<open>I\<close>.\<close>

definition implements :: "sinks \<Rightarrow> goValue \<Rightarrow> string list \<Rightarrow> bool" where
  "implements ss v iface \<longleftrightarrow> set iface \<subseteq> set (methodSet ss v)"

text \<open>Calling \<open>Flush\<close> or \<open>Close\<close> on a value that has the method.\<close>

fun callFlush :: "goValue \<Rightarrow> sinks \<Rightarrow> sinks" where
  "callFlush (SinkRef a) ss = (case ss a of None \<Rightarrow> ss | Some s \<Rightarrow> ss(a \<mapsto> s\<lparr>flushes := flushes s + 1\<rparr>))"
| "callFlush v ss = ss"

fun callClose :: "goValue \<Rightarrow> sinks \<Rightarrow> sinks" where
  "callClose (SinkRef a) ss = (case ss a of None \<Rightarrow> ss | Some s \<Rightarrow> ss(a \<mapsto> s\<lparr>closes := closes s + 1\<rparr>))"
| "callClose v ss = ss"

text \<open>
  \<open>Write\<close> on the sink at address \<open>a\<close>: an error once the budget is used up, the bytes
  appended otherwise; a panic when there is no sink (a nil writer).
\<close>

definition sinkWrite :: "nat \<Rightarrow> byte list \<Rightarrow> sinks \<Rightarrow> (string option \<times> sinks) exec" where
  "sinkWrite a bs ss =
    (case ss a of
       None \<Rightarrow> Panic ''nil pointer dereference''
     | Some s \<Rightarrow>
        (case budget s of
           None \<Rightarrow> Return (None, ss(a \<mapsto> s\<lparr>written := written s @ bs\<rparr>))
         | Some n \<Rightarrow>
             if n = 0 then Return (Some ''write failed'', ss)
             else Return (None, ss(a \<mapsto> s\<lparr>written := written s @ bs, budget := Some (n - 1)\<rparr>))))"

text \<open>
  The store of \<open>go-pointer\<close>: \<open>pointer.Save\<close> keeps the value under a fresh key and
  returns the key; \<open>pointer.Restore\<close> looks it up (nil when absent).
\<close>

record pointerStore =
  nextKey :: nat
  saved :: "nat \<rightharpoonup> goValue"

definition pointerSave :: "goValue \<Rightarrow> pointerStore \<Rightarrow> nat \<times> pointerStore" where
  "pointerSave v st = (nextKey st, \<lparr>nextKey = nextKey st + 1, saved = (saved st)(nextKey st \<mapsto> v)\<rparr>)"

definition pointerRestore :: "pointerStore \<Rightarrow> nat \<Rightarrow> goValue option" where
  "pointerRestore st p = saved st p"

text \<open>
  \<open>imgproxy_write\<close> (lines 633-641): restores the value saved under \<open>user\<close>, asserts
  that it is an \<open>io.Writer\<close> (a failed assertion panics, also on nil), writes the buffer
  and returns the count, or \<open>-1\<close> on an error.
\<close>

definition imgproxy_write :: "pointerStore \<Rightarrow> nat \<Rightarrow> byte list \<Rightarrow> sinks \<Rightarrow> (int \<times> sinks) exec" where
  "imgproxy_write st user buffer ss =
    (case pointerRestore st user of
       None \<Rightarrow> Panic ''interface conversion: interface is nil, not io.Writer''
     | Some v \<Rightarrow>
        if \<not> implements ss v [''Write'']
        then Panic ''interface conversion: missing method Write''
        else (case v of
                SinkRef a \<Rightarrow>
                  (case sinkWrite a buffer ss of
                     Panic m \<Rightarrow> Panic m
                   | Return (Some err, ss') \<Rightarrow> Return (- 1, ss')
                   | Return (None, ss') \<Rightarrow> Return (int (length buffer), ss'))
              | _ \<Rightarrow> Panic ''interface conversion: missing method Write''))"

text \<open>
  \<open>imgproxy_finish\<close> (lines 643-652): \<open>u\<close> is the pointer \<open>user\<close> itself converted
  to an interface, not the value saved under it.
\<close>

definition imgproxy_finish :: "nat \<Rightarrow> sinks \<Rightarrow> sinks" where
  "imgproxy_finish user ss =
    (let u = UnsafePointer user;
         ss1 = (if implements ss u [''Flush''] then callFlush u ss else ss);
         ss2 = (if implements ss1 u [''Close''] then callClose u ss1 else ss1)
     in ss2)"

text \<open>
  The raster engine, as far as \<open>SaveAsIco\<close> calls it. \<open>pngsave img\<close> is what
  \<open>vips_pngsave_go(img, target, 0, 0, 256)\<close> does with its target: \<open>None\<close> when the
  encoder fails before it writes, otherwise the chunks of bytes it pushes through the
  target's write callback, in order, before it signals finish.
\<close>

record vipsImage =
  Xsize :: int
  Ysize :: int

record vips =
  pngsave :: "vipsImage \<Rightarrow> byte list list option"
  image_hasalpha :: "vipsImage \<Rightarrow> bool"
  error_buffer :: string

text \<open>
  A save into the target made by \<open>imgproxy_new_writer_target(user)\<close>: each chunk goes to
  \<open>imgproxy_write\<close>; a negative return stops the save with a nonzero status; after the
  last chunk the finish signal runs \<open>imgproxy_finish\<close> and the status is 0.
\<close>

fun writeChunks :: "pointerStore \<Rightarrow> nat \<Rightarrow> byte list list \<Rightarrow> sinks \<Rightarrow> (bool \<times> sinks) exec" where
  "writeChunks st user [] ss = Return (True, ss)"
| "writeChunks st user (c # cs) ss =
    (case imgproxy_write st user c ss of
       Panic m \<Rightarrow> Panic m
     | Return (n, ss') \<Rightarrow> if n < 0 then Return (False, ss') else writeChunks st user cs ss')"

definition targetSave ::
  "pointerStore \<Rightarrow> nat \<Rightarrow> byte list list option \<Rightarrow> sinks \<Rightarrow> (int \<times> sinks) exec" where
  "targetSave st user encoded ss =
    (case encoded of
       None \<Rightarrow> Return (- 1, ss)
     | Some chunks \<Rightarrow>
        (case writeChunks st user chunks ss of
           Panic m \<Rightarrow> Panic m
         | Return (ok, ss') \<Rightarrow>
             if ok then Return (0, imgproxy_finish user ss') else Return (- 1, ss')))"

text \<open>\<open>byte(x % 256)\<close>: Go's remainder truncates towards zero; the conversion keeps the low 8 bits.\<close>

definition icoDimension :: "int \<Rightarrow> byte" where
  "icoDimension x = word_of_int (x smod 256)"

text \<open>\<open>binary.Write(w, binary.LittleEndian, uint32(n))\<close>: four bytes, lowest first.\<close>

definition putUint32LE :: "int \<Rightarrow> byte list" where
  "putUint32LE n =
     [word_of_int n, word_of_int (n div 256), word_of_int (n div 65536), word_of_int (n div 16777216)]"

text \<open>
  The chain of \<open>if _, err := w.Write(...); err != nil { return err }\<close>: the slices are
  written in order and the first error is returned.
\<close>

fun writeAll :: "nat \<Rightarrow> byte list list \<Rightarrow> sinks \<Rightarrow> (string option \<times> sinks) exec" where
  "writeAll w [] ss = Return (None, ss)"
| "writeAll w (bs # rest) ss =
    (case sinkWrite w bs ss of
       Panic m \<Rightarrow> Panic m
     | Return (Some err, ss') \<Rightarrow> Return (Some err, ss')
     | Return (None, ss') \<Rightarrow> writeAll w rest ss')"

text \<open>
  \<open>SaveAsIco\<close> (lines 225-289), writing to the sink at address \<open>w\<close>. The local
  \<open>imgData\<close> is a \<open>bytes.Buffer\<close> value and \<open>pointer.Save(imgData)\<close> stores a copy
  of it, so the header and the payload are taken from the local buffer as it was
  declared.
\<close>

definition SaveAsIco ::
  "vips \<Rightarrow> vipsImage \<Rightarrow> nat \<Rightarrow> pointerStore \<Rightarrow> sinks \<Rightarrow> (string option \<times> sinks) exec" where
  "SaveAsIco v img w st ss =
    (if Xsize img > 256 \<or> Ysize img > 256
     then Return (Some ''Image dimensions is too big. Max dimension size for ICO is 256'', ss)
     else
       (let imgData = [];
            (wp, st1) = pointerSave (BytesBuffer imgData) st
        in case targetSave st1 wp (pngsave v img) ss of
             Panic m \<Rightarrow> Panic m
           | Return (rc, ss1) \<Rightarrow>
               if rc \<noteq> 0 then Return (Some (error_buffer v), ss1)
               else writeAll w
                      [[0, 0, 1, 0, 1, 0],
                       [icoDimension (Xsize img), icoDimension (Ysize img)],
                       [0],
                       [0],
                       [1, 0],
                       (if image_hasalpha v img then [32, 0] else [24, 0]),
                       putUint32LE (int (length imgData)),
                       [22, 0, 0, 0],
                       imgData]
                      ss1))"

section \<open>The URL parser: options, presets and client hints\<close>

text \<open>
  Modelled from the spec: \<open>parsePath\<close> and the option setters are missing from the
  sources (only their tests are there). This section models steps 5 to 7 of the spec's
  section 4.1 for the named form of option atoms, which is the form of every test the
  claims cite: defaults and the \<open>default\<close> preset, the option atoms with preset
  expansion, and the client-hint overrides. The signature, the source URL, the legacy
  positional form and content negotiation are not modelled.

  The option names and the shape of their arguments are those the tests use
  (\<open>width:100\<close>, \<open>size:100:200:1\<close>, \<open>resize:fill:100:200:1\<close>, \<open>dpr:2\<close>,
  \<open>quality:55\<close>, \<open>blur:0.2\<close>, \<open>preset:test1:test2\<close>, ...); the ranges are the
  spec's invariants (\<open>Width, Height \<ge> 0\<close>, \<open>Quality\<close> in 1..100, \<open>Dpr > 0\<close>,
  \<open>Blur\<close> and \<open>Sharpen\<close> non-negative). The option record is taken with its
  extension part \<open>'a\<close>, which stands for the fields of the spec's record that are not
  listed in \<open>processingOptions\<close> (crop, gravity, background, ...): their setters are the
  parameter \<open>other\<close>, which acts on that part only and answers \<open>None\<close> for a name
  it does not know.
\<close>

text \<open>The number and boolean parsers of the library (\<open>strconv\<close>), as parameters.\<close>

record strconv =
  Atoi :: "string \<Rightarrow> int option"
  ParseFloat :: "string \<Rightarrow> rat option"
  ParseBool :: "string \<Rightarrow> bool option"

type_synonym 'a otherSetter = "string \<Rightarrow> string list \<Rightarrow> 'a \<Rightarrow> (error + 'a) option"

text \<open>The spec's error kind \<open>InvalidOption\<close> (status 422).\<close>

definition invalidOption :: "string \<Rightarrow> error" where
  "invalidOption msg = imgproxyError 422 msg ''Invalid URL'' False"

text \<open>
  The state of option parsing: the record being built, and whether a width and a
  device pixel ratio were set explicitly by an option atom (step 7 asks for that).
\<close>

record 'a parseState =
  opts :: "'a processingOptions_scheme"
  widthSet :: bool
  dprSet :: bool

fun resizeTypeByName :: "string \<Rightarrow> resizeType option" where
  "resizeTypeByName s =
     (if s = ''fit'' then Some resizeFit
      else if s = ''fill'' then Some resizeFill
      else if s = ''fill-down'' then Some resizeFillDown
      else if s = ''force'' then Some resizeForce
      else if s = ''auto'' then Some resizeAuto
      else None)"

fun imageTypeByName :: "string \<Rightarrow> imageType option" where
  "imageTypeByName s =
     (if s = ''jpeg'' then Some imageTypeJPEG
      else if s = ''png'' then Some imageTypePNG
      else if s = ''webp'' then Some imageTypeWEBP
      else if s = ''gif'' then Some imageTypeGIF
      else if s = ''avif'' then Some imageTypeAVIF
      else if s = ''heic'' then Some imageTypeHEIC
      else if s = ''bmp'' then Some imageTypeBMP
      else if s = ''tiff'' then Some imageTypeTIFF
      else if s = ''ico'' then Some imageTypeICO
      else None)"

text \<open>The typed setters. Each validates its arity and the range of its argument.\<close>

definition applyWidthOption :: "strconv \<Rightarrow> string list \<Rightarrow> 'a parseState \<Rightarrow> error + 'a parseState" where
  "applyWidthOption lib args st =
    (case args of
       [a] \<Rightarrow> (case Atoi lib a of
                 Some w \<Rightarrow> if w \<ge> 0 then Inr (st\<lparr>opts := (opts st)\<lparr>Width := w\<rparr>, widthSet := True\<rparr>)
                           else Inl (invalidOption ''Invalid width'')
               | None \<Rightarrow> Inl (invalidOption ''Invalid width''))
     | _ \<Rightarrow> Inl (invalidOption ''Invalid width arguments''))"

definition applyHeightOption :: "strconv \<Rightarrow> string list \<Rightarrow> 'a parseState \<Rightarrow> error + 'a parseState" where
  "applyHeightOption lib args st =
    (case args of
       [a] \<Rightarrow> (case Atoi lib a of
                 Some h \<Rightarrow> if h \<ge> 0 then Inr (st\<lparr>opts := (opts st)\<lparr>Height := h\<rparr>\<rparr>)
                           else Inl (invalidOption ''Invalid height'')
               | None \<Rightarrow> Inl (invalidOption ''Invalid height''))
     | _ \<Rightarrow> Inl (invalidOption ''Invalid height arguments''))"

definition applyEnlargeOption :: "strconv \<Rightarrow> string list \<Rightarrow> 'a parseState \<Rightarrow> error + 'a parseState" where
  "applyEnlargeOption lib args st =
    (case args of
       [a] \<Rightarrow> (case ParseBool lib a of
                 Some b \<Rightarrow> Inr (st\<lparr>opts := (opts st)\<lparr>Enlarge := b\<rparr>\<rparr>)
               | None \<Rightarrow> Inl (invalidOption ''Invalid enlarge''))
     | _ \<Rightarrow> Inl (invalidOption ''Invalid enlarge arguments''))"

definition applyResizingTypeOption :: "string list \<Rightarrow> 'a parseState \<Rightarrow> error + 'a parseState" where
  "applyResizingTypeOption args st =
    (case args of
       [a] \<Rightarrow> (case resizeTypeByName a of
                 Some t \<Rightarrow> Inr (st\<lparr>opts := (opts st)\<lparr>ResizingType := t\<rparr>\<rparr>)
               | None \<Rightarrow> Inl (invalidOption ''Invalid resize type''))
     | _ \<Rightarrow> Inl (invalidOption ''Invalid resizing type arguments''))"

text \<open>\<open>size:width:height:enlarge\<close>, each part through its own setter, in order.\<close>

definition applySizeOption :: "strconv \<Rightarrow> string list \<Rightarrow> 'a parseState \<Rightarrow> error + 'a parseState" where
  "applySizeOption lib args st =
    (case args of
       [w] \<Rightarrow> applyWidthOption lib [w] st
     | [w, h] \<Rightarrow>
         (case applyWidthOption lib [w] st of Inl e \<Rightarrow> Inl e
          | Inr st1 \<Rightarrow> applyHeightOption lib [h] st1)
     | [w, h, en] \<Rightarrow>
         (case applyWidthOption lib [w] st of Inl e \<Rightarrow> Inl e
          | Inr st1 \<Rightarrow>
              (case applyHeightOption lib [h] st1 of Inl e \<Rightarrow> Inl e
               | Inr st2 \<Rightarrow> applyEnlargeOption lib [en] st2))
     | _ \<Rightarrow> Inl (invalidOption ''Invalid size arguments''))"

text \<open>\<open>resize:type:width:height:enlarge\<close>.\<close>

definition applyResizeOption :: "strconv \<Rightarrow> string list \<Rightarrow> 'a parseState \<Rightarrow> error + 'a parseState" where
  "applyResizeOption lib args st =
    (case args of
       [] \<Rightarrow> Inl (invalidOption ''Invalid resize arguments'')
     | [t] \<Rightarrow> applyResizingTypeOption [t] st
     | t # rest \<Rightarrow>
         (case applyResizingTypeOption [t] st of Inl e \<Rightarrow> Inl e
          | Inr st1 \<Rightarrow> applySizeOption lib rest st1))"

definition applyDprOption :: "strconv \<Rightarrow> string list \<Rightarrow> 'a parseState \<Rightarrow> error + 'a parseState" where
  "applyDprOption lib args st =
    (case args of
       [a] \<Rightarrow> (case ParseFloat lib a of
                 Some d \<Rightarrow> if d > 0 then Inr (st\<lparr>opts := (opts st)\<lparr>Dpr := d\<rparr>, dprSet := True\<rparr>)
                           else Inl (invalidOption ''Invalid dpr'')
               | None \<Rightarrow> Inl (invalidOption ''Invalid dpr''))
     | _ \<Rightarrow> Inl (invalidOption ''Invalid dpr arguments''))"

definition applyQualityOption :: "strconv \<Rightarrow> string list \<Rightarrow> 'a parseState \<Rightarrow> error + 'a parseState" where
  "applyQualityOption lib args st =
    (case args of
       [a] \<Rightarrow> (case Atoi lib a of
                 Some q \<Rightarrow> if 1 \<le> q \<and> q \<le> 100 then Inr (st\<lparr>opts := (opts st)\<lparr>Quality := q\<rparr>\<rparr>)
                           else Inl (invalidOption ''Invalid quality'')
               | None \<Rightarrow> Inl (invalidOption ''Invalid quality''))
     | _ \<Rightarrow> Inl (invalidOption ''Invalid quality arguments''))"

definition applyBlurOption :: "strconv \<Rightarrow> string list \<Rightarrow> 'a parseState \<Rightarrow> error + 'a parseState" where
  "applyBlurOption lib args st =
    (case args of
       [a] \<Rightarrow> (case ParseFloat lib a of
                 Some b \<Rightarrow> if b \<ge> 0 then Inr (st\<lparr>opts := (opts st)\<lparr>Blur := b\<rparr>\<rparr>)
                           else Inl (invalidOption ''Invalid blur'')
               | None \<Rightarrow> Inl (invalidOption ''Invalid blur''))
     | _ \<Rightarrow> Inl (invalidOption ''Invalid blur arguments''))"

definition applySharpenOption :: "strconv \<Rightarrow> string list \<Rightarrow> 'a parseState \<Rightarrow> error + 'a parseState" where
  "applySharpenOption lib args st =
    (case args of
       [a] \<Rightarrow> (case ParseFloat lib a of
                 Some b \<Rightarrow> if b \<ge> 0 then Inr (st\<lparr>opts := (opts st)\<lparr>Sharpen := b\<rparr>\<rparr>)
                           else Inl (invalidOption ''Invalid sharpen'')
               | None \<Rightarrow> Inl (invalidOption ''Invalid sharpen''))
     | _ \<Rightarrow> Inl (invalidOption ''Invalid sharpen arguments''))"

definition applyFormatOption :: "string list \<Rightarrow> 'a parseState \<Rightarrow> error + 'a parseState" where
  "applyFormatOption args st =
    (case args of
       [a] \<Rightarrow> (case imageTypeByName a of
                 Some f \<Rightarrow> Inr (st\<lparr>opts := (opts st)\<lparr>Format := f\<rparr>\<rparr>)
               | None \<Rightarrow> Inl (invalidOption ''Invalid image format''))
     | _ \<Rightarrow> Inl (invalidOption ''Invalid format arguments''))"

definition applyCacheBusterOption :: "string list \<Rightarrow> 'a parseState \<Rightarrow> error + 'a parseState" where
  "applyCacheBusterOption args st =
    (case args of
       [a] \<Rightarrow> Inr (st\<lparr>opts := (opts st)\<lparr>CacheBuster := a\<rparr>\<rparr>)
     | _ \<Rightarrow> Inl (invalidOption ''Invalid cache buster arguments''))"

definition applyStripMetadataOption :: "strconv \<Rightarrow> string list \<Rightarrow> 'a parseState \<Rightarrow> error + 'a parseState" where
  "applyStripMetadataOption lib args st =
    (case args of
       [a] \<Rightarrow> (case ParseBool lib a of
                 Some b \<Rightarrow> Inr (st\<lparr>opts := (opts st)\<lparr>StripMetadata := b\<rparr>\<rparr>)
               | None \<Rightarrow> Inl (invalidOption ''Invalid strip metadata''))
     | _ \<Rightarrow> Inl (invalidOption ''Invalid strip metadata arguments''))"

definition applyFilenameOption :: "string list \<Rightarrow> 'a parseState \<Rightarrow> error + 'a parseState" where
  "applyFilenameOption args st =
    (case args of
       [a] \<Rightarrow> Inr (st\<lparr>opts := (opts st)\<lparr>Filename := a\<rparr>\<rparr>)
     | _ \<Rightarrow> Inl (invalidOption ''Invalid filename arguments''))"

text \<open>
  The dispatch on the name of an atom that is not a preset reference. A name none of
  the setters knows is an \<open>InvalidOption\<close>.
\<close>

definition applyProcessingOption ::
  "strconv \<Rightarrow> 'a otherSetter \<Rightarrow> urlOption \<Rightarrow> 'a parseState \<Rightarrow> error + 'a parseState" where
  "applyProcessingOption lib other opt st =
    (let name = Name opt; args = Args opt in
     if name = ''resize'' then applyResizeOption lib args st
     else if name = ''size'' then applySizeOption lib args st
     else if name = ''resizing_type'' then applyResizingTypeOption args st
     else if name = ''width'' then applyWidthOption lib args st
     else if name = ''height'' then applyHeightOption lib args st
     else if name = ''enlarge'' then applyEnlargeOption lib args st
     else if name = ''dpr'' then applyDprOption lib args st
     else if name = ''quality'' then applyQualityOption lib args st
     else if name = ''blur'' then applyBlurOption lib args st
     else if name = ''sharpen'' then applySharpenOption lib args st
     else if name = ''format'' then applyFormatOption args st
     else if name = ''cachebuster'' then applyCacheBusterOption args st
     else if name = ''strip_metadata'' then applyStripMetadataOption lib args st
     else if name = ''filename'' then applyFilenameOption args st
     else (case other name args (processingOptions.more (opts st)) of
             None \<Rightarrow> Inl (invalidOption (''Unknown processing option '' @ name))
           | Some (Inl e) \<Rightarrow> Inl e
           | Some (Inr m) \<Rightarrow> Inr (st\<lparr>opts := (opts st)\<lparr>processingOptions.more := m\<rparr>\<rparr>)))"

text \<open>None of the typed setters touches \<open>UsedPresets\<close>; preset expansion terminates by that.\<close>

lemma applyWidthOption_UsedPresets:
  "applyWidthOption lib args st = Inr st' \<Longrightarrow> UsedPresets (opts st') = UsedPresets (opts st)"
  by (auto simp add: applyWidthOption_def split: list.splits option.splits if_splits)

lemma applyHeightOption_UsedPresets:
  "applyHeightOption lib args st = Inr st' \<Longrightarrow> UsedPresets (opts st') = UsedPresets (opts st)"
  by (auto simp add: applyHeightOption_def split: list.splits option.splits if_splits)

lemma applyEnlargeOption_UsedPresets:
  "applyEnlargeOption lib args st = Inr st' \<Longrightarrow> UsedPresets (opts st') = UsedPresets (opts st)"
  by (auto simp add: applyEnlargeOption_def split: list.splits option.splits if_splits)

lemma applyResizingTypeOption_UsedPresets:
  "applyResizingTypeOption args st = Inr st' \<Longrightarrow> UsedPresets (opts st') = UsedPresets (opts st)"
  by (auto simp add: applyResizingTypeOption_def split: list.splits option.splits if_splits)

lemma applySizeOption_UsedPresets:
  "applySizeOption lib args st = Inr st' \<Longrightarrow> UsedPresets (opts st') = UsedPresets (opts st)"
  by (auto simp add: applySizeOption_def split: list.splits sum.splits
      dest!: applyWidthOption_UsedPresets applyHeightOption_UsedPresets
        applyEnlargeOption_UsedPresets)

lemma applyResizeOption_UsedPresets:
  "applyResizeOption lib args st = Inr st' \<Longrightarrow> UsedPresets (opts st') = UsedPresets (opts st)"
  by (auto simp add: applyResizeOption_def split: list.splits sum.splits
      dest!: applyResizingTypeOption_UsedPresets applySizeOption_UsedPresets)

lemma applyProcessingOption_UsedPresets:
  "applyProcessingOption lib other opt st = Inr st' \<Longrightarrow>
     UsedPresets (opts st') = UsedPresets (opts st)"
  unfolding applyProcessingOption_def Let_def
  by (auto simp add: applyDprOption_def applyQualityOption_def
      applyBlurOption_def applySharpenOption_def applyFormatOption_def applyCacheBusterOption_def
      applyStripMetadataOption_def applyFilenameOption_def
      split: if_splits list.splits option.splits sum.splits
      dest: applyResizeOption_UsedPresets applySizeOption_UsedPresets
        applyResizingTypeOption_UsedPresets applyWidthOption_UsedPresets
        applyHeightOption_UsedPresets applyEnlargeOption_UsedPresets)

text \<open>
  Preset expansion and the loop over the option atoms, as one function over the list of
  atoms still to apply. A \<open>preset:n:ns\<close> atom at the head is expanded in place: a name
  \<open>n\<close> already in \<open>UsedPresets\<close> is skipped; otherwise \<open>n\<close> is inserted into
  \<open>UsedPresets\<close> and the atoms of its preset are applied before the rest of the
  names and the rest of the atoms. A name with no preset is an \<open>InvalidOption\<close>, as
  an unknown option name is. Any other atom goes to its typed setter. The presets are an
  association list from names to option lists.

  \<open>workSize\<close> counts the atoms and their arguments; with the number of defined presets
  not yet used it is the measure of the termination proof.
\<close>

definition workSize :: "urlOptions \<Rightarrow> nat" where
  "workSize work = sum_list (map (\<lambda>opt. Suc (length (Args opt))) work)"

function applyProcessingOptions ::
  "strconv \<Rightarrow> 'a otherSetter \<Rightarrow> (string \<times> urlOptions) list \<Rightarrow> urlOptions \<Rightarrow> 'a parseState
     \<Rightarrow> error + 'a parseState" where
  "applyProcessingOptions lib other presets [] st = Inr st"
| "applyProcessingOptions lib other presets (opt # rest) st =
    (if Name opt = ''preset'' then
       (case Args opt of
          [] \<Rightarrow> applyProcessingOptions lib other presets rest st
        | n # ns \<Rightarrow>
           (case map_of presets n of
              None \<Rightarrow> Inl (invalidOption (''Unknown preset '' @ n))
            | Some body \<Rightarrow>
                if n \<in> set (UsedPresets (opts st))
                then applyProcessingOptions lib other presets (urlOption ''preset'' ns # rest) st
                else applyProcessingOptions lib other presets
                       (body @ urlOption ''preset'' ns # rest)
                       (st\<lparr>opts := (opts st)\<lparr>UsedPresets := UsedPresets (opts st) @ [n]\<rparr>\<rparr>)))
     else (case applyProcessingOption lib other opt st of
             Inl e \<Rightarrow> Inl e
           | Inr st' \<Rightarrow> applyProcessingOptions lib other presets rest st'))"
  by pat_completeness auto
termination
proof (relation "inv_image (less_than <*lex*> less_than)
    (\<lambda>(lib, other, presets, work, st).
       (card (fst ` set presets - set (UsedPresets (opts st))), workSize work))", goal_cases)
  case 1
  then show ?case by (intro wf_inv_image wf_lex_prod wf_less_than)
next
  case (2 lib other presets opt rest st)
  then show ?case by (simp add: workSize_def)
next
  case (3 lib other presets opt rest st n ns body)
  then show ?case by (simp add: workSize_def)
next
  case (4 lib other presets opt rest st n ns body)
  have "n \<in> fst ` set presets"
    using 4(3) by (metis domI dom_map_of_conv_image_fst)
  then have "card (fst ` set presets - set (UsedPresets (opts st) @ [n]))
      < card (fst ` set presets - set (UsedPresets (opts st)))"
    using 4(4) by (intro psubset_card_mono) auto
  then show ?case by simp
next
  case (5 lib other presets opt rest st st')
  then show ?case
    by (simp add: workSize_def applyProcessingOption_UsedPresets)
qed

text \<open>
  Step 7, the client-hint overrides: with \<open>EnableClientHints\<close>, the header \<open>Width\<close>
  (or else \<open>Viewport-Width\<close>) sets \<open>Width\<close> only if no width was set explicitly, and
  the header \<open>DPR\<close> sets \<open>Dpr\<close> likewise. A header value that does not parse or is
  out of range is ignored.
\<close>

definition widthHint :: "strconv \<Rightarrow> header \<Rightarrow> string \<Rightarrow> int option" where
  "widthHint lib hdr name =
    (case hdr name of
       None \<Rightarrow> None
     | Some v \<Rightarrow> (case Atoi lib v of
                    Some w \<Rightarrow> if w \<ge> 0 then Some w else None
                  | None \<Rightarrow> None))"

definition dprHint :: "strconv \<Rightarrow> header \<Rightarrow> rat option" where
  "dprHint lib hdr =
    (case hdr ''DPR'' of
       None \<Rightarrow> None
     | Some v \<Rightarrow> (case ParseFloat lib v of
                    Some d \<Rightarrow> if d > 0 then Some d else None
                  | None \<Rightarrow> None))"

definition applyClientHints :: "strconv \<Rightarrow> config \<Rightarrow> header \<Rightarrow> 'a parseState \<Rightarrow> 'a parseState" where
  "applyClientHints lib conf hdr st =
    (if \<not> EnableClientHints conf then st
     else
       (let w = (case widthHint lib hdr ''Width'' of
                   Some w \<Rightarrow> Some w
                 | None \<Rightarrow> widthHint lib hdr ''Viewport-Width'');
            st1 = (case w of
                     Some w \<Rightarrow> if widthSet st then st else st\<lparr>opts := (opts st)\<lparr>Width := w\<rparr>\<rparr>
                   | None \<Rightarrow> st)
        in case dprHint lib hdr of
             Some d \<Rightarrow> if dprSet st1 then st1 else st1\<lparr>opts := (opts st1)\<lparr>Dpr := d\<rparr>\<rparr>
           | None \<Rightarrow> st1))"

text \<open>
  Steps 5 and 6 on the option atoms of a request: the defaults with \<open>UsedPresets\<close>
  empty, the \<open>default\<close> preset if there is one, then the atoms (each a preset
  reference under \<open>OnlyPresets\<close>).
\<close>

definition applyURLOptions ::
  "strconv \<Rightarrow> 'a otherSetter \<Rightarrow> config \<Rightarrow> 'a processingOptions_scheme \<Rightarrow> urlOptions
     \<Rightarrow> error + 'a parseState" where
  "applyURLOptions lib other conf defaults atoms =
    (let st0 = \<lparr>opts = defaults\<lparr>UsedPresets := []\<rparr>, widthSet = False, dprSet = False\<rparr>;
         defaultPreset = (if map_of (Presets conf) ''default'' \<noteq> None
                          then [urlOption ''preset'' [''default'']] else []);
         work = (if OnlyPresets conf
                 then map (\<lambda>atom. urlOption ''preset'' (Name atom # Args atom)) atoms
                 else atoms)
     in case applyProcessingOptions lib other (Presets conf) defaultPreset st0 of
          Inl e \<Rightarrow> Inl e
        | Inr st1 \<Rightarrow> applyProcessingOptions lib other (Presets conf) work st1)"

text \<open>Steps 5 to 7: the options of the URL, then the client hints.\<close>

definition parseOptions ::
  "strconv \<Rightarrow> 'a otherSetter \<Rightarrow> config \<Rightarrow> 'a processingOptions_scheme \<Rightarrow> header \<Rightarrow> urlOptions
     \<Rightarrow> error + 'a processingOptions_scheme" where
  "parseOptions lib other conf defaults hdr atoms =
    (case applyURLOptions lib other conf defaults atoms of
       Inl e \<Rightarrow> Inl e
     | Inr st \<Rightarrow> Inr (opts (applyClientHints lib conf hdr st)))"

text \<open>
  The option atoms of a path \<open>/<signature>/<options>/plain/<url>\<close> or
  \<open>/<signature>/<options>/<base64>\<close>: the segments after the signature, up to the
  \<open>plain\<close> marker or else the last segment; each split at its colons into a name and
  arguments.
\<close>

fun splitOn :: "char \<Rightarrow> string \<Rightarrow> string list" where
  "splitOn c [] = [[]]"
| "splitOn c (x # xs) =
    (if x = c then [] # splitOn c xs
     else (case splitOn c xs of [] \<Rightarrow> [[x]] | p # ps \<Rightarrow> (x # p) # ps))"

definition parseURLOption :: "string \<Rightarrow> urlOption" where
  "parseURLOption seg = (case splitOn CHR '':'' seg of [] \<Rightarrow> urlOption [] [] | n # args \<Rightarrow> urlOption n args)"

definition optionAtoms :: "string \<Rightarrow> urlOptions" where
  "optionAtoms path =
    (let parts = drop 2 (splitOn CHR ''/'' path)
     in map parseURLOption
          (if ''plain'' \<in> set parts then takeWhile (\<lambda>seg. seg \<noteq> ''plain'') parts
           else butlast parts))"

definition parsePathOptions ::
  "strconv \<Rightarrow> 'a otherSetter \<Rightarrow> config \<Rightarrow> 'a processingOptions_scheme \<Rightarrow> request
     \<Rightarrow> error + 'a processingOptions_scheme" where
  "parsePathOptions lib other conf defaults r =
     parseOptions lib other conf defaults (Header r) (optionAtoms (RequestURI r))"

text \<open>
  Stand-ins for the library's parsers at the example values: decimal digits for
  \<open>Atoi\<close>, digits with an optional fraction for \<open>ParseFloat\<close>.
\<close>

fun digitValue :: "char \<Rightarrow> nat option" where
  "digitValue c = (if c \<in> set ''0123456789'' then Some (of_char c - 48) else None)"

fun digitsValue :: "nat \<Rightarrow> string \<Rightarrow> nat option" where
  "digitsValue acc [] = Some acc"
| "digitsValue acc (c # cs) =
     (case digitValue c of None \<Rightarrow> None | Some d \<Rightarrow> digitsValue (10 * acc + d) cs)"

definition exampleAtoi :: "string \<Rightarrow> int option" where
  "exampleAtoi s = (if s = [] then None else map_option int (digitsValue 0 s))"

definition exampleParseFloat :: "string \<Rightarrow> rat option" where
  "exampleParseFloat s =
    (case splitOn CHR ''.'' s of
       [i] \<Rightarrow> map_option of_int (exampleAtoi i)
     | [i, f] \<Rightarrow>
         (case (exampleAtoi i, exampleAtoi f) of
            (Some a, Some b) \<Rightarrow> Some (of_int a + of_int b / 10 ^ length f)
          | _ \<Rightarrow> None)
     | _ \<Rightarrow> None)"

definition exampleStrconv :: strconv where
  "exampleStrconv =
     \<lparr>Atoi = exampleAtoi, ParseFloat = exampleParseFloat,
      ParseBool = (\<lambda>s. if s = ''1'' \<or> s = ''true'' then Some True
                        else if s = ''0'' \<or> s = ''false'' then Some False else None)\<rparr>"

definition noOtherOptions :: "unit otherSetter" where
  "noOtherOptions name args m = None"

text \<open>Two presets that refer to each other, and one that refers to itself.\<close>

definition cyclicPresets :: "(string \<times> urlOptions) list" where
  "cyclicPresets =
     [(''a'', [urlOption ''preset'' [''b''], urlOption ''width'' [''10'']]),
      (''b'', [urlOption ''preset'' [''a'', ''c''], urlOption ''quality'' [''50'']]),
      (''c'', [urlOption ''preset'' [''c''], urlOption ''height'' [''20'']])]"


text \<open>No atom of the list or of a preset has one of the names.\<close>

definition noAtomNamed :: "string set \<Rightarrow> (string \<times> urlOptions) list \<Rightarrow> urlOptions \<Rightarrow> bool" where
  "noAtomNamed names presets work \<longleftrightarrow>
     (\<forall>opt\<in>set work. Name opt \<notin> names)
     \<and> (\<forall>preset\<in>set presets. \<forall>opt\<in>set (snd preset). Name opt \<notin> names)"

section \<open>Admission: the processing semaphore\<close>

text \<open>
  Lines 25 and 113-132, and the deferred calls of \<open>handleProcessing\<close>. Requests are
  goroutines that run \<open>handleProcessing\<close> interleaved; what they share is the channel
  \<open>processingSem\<close>, made with capacity \<open>Concurrency\<close> (line 25) and holding values
  of the empty struct, so its state is the number \<open>sem\<close> of values in its buffer. A send
  proceeds when fewer than \<open>Concurrency\<close> values are buffered, a receive when at least
  one is; a \<open>select\<close> proceeds with any case that can, and blocks when none can.
  (With capacity 0 a send needs a waiting receiver; the only receives are the deferred
  ones of goroutines whose send has proceeded, so none proceeds, as here.)

  The deferred calls of the function, by what they call: \<open>newRelicCancel\<close> (line 119),
  the closure of \<open>startPrometheusDuration\<close> (124), the receive from \<open>processingSem\<close>
  (132), \<open>timeoutCancel\<close> (135), \<open>downloadcancel\<close> (143), \<open>done\<close>, which flushes and
  closes the response stream (184 and 206), and \<open>processcancel\<close> (209).
\<close>

datatype deferred =
  NewRelicCancel | PrometheusDuration | ReceiveSem | TimeoutCancel | DownloadCancel | Done
  | ProcessCancel

text \<open>
  The places where the function is left, by line: the panic of the cancelled \<open>select\<close>
  (130), the panics on a parse error (139) and on a download error without fallback (153),
  the three deadline checks (164, 176, 220), the return after 304 (172), the return of the
  skip-processing shortcut (186), the panic on a processing error (217) and the end of the
  function (222). \<open>registeredBy\<close> lists the calls deferred between line 134 and the exit,
  in the order of the \<open>defer\<close> statements.
\<close>

datatype exitPoint =
  Line130 | Line139 | Line153 | Line164 | Line172 | Line176 | Line186 | Line217 | Line220
  | Line222

fun panics :: "exitPoint \<Rightarrow> bool" where
  "panics Line172 = False"
| "panics Line186 = False"
| "panics Line222 = False"
| "panics _ = True"

fun registeredBy :: "exitPoint \<Rightarrow> deferred list" where
  "registeredBy Line130 = []"
| "registeredBy Line139 = [TimeoutCancel]"
| "registeredBy Line153 = [TimeoutCancel, DownloadCancel]"
| "registeredBy Line164 = [TimeoutCancel, DownloadCancel]"
| "registeredBy Line172 = [TimeoutCancel, DownloadCancel]"
| "registeredBy Line176 = [TimeoutCancel, DownloadCancel]"
| "registeredBy Line186 = [TimeoutCancel, DownloadCancel, Done]"
| "registeredBy Line217 = [TimeoutCancel, DownloadCancel, Done, ProcessCancel]"
| "registeredBy Line220 = [TimeoutCancel, DownloadCancel, Done, ProcessCancel]"
| "registeredBy Line222 = [TimeoutCancel, DownloadCancel, Done, ProcessCancel]"

text \<open>
  The package variables the prologue reads, and \<open>newError\<close>, which is not among the
  sources.
\<close>

record globals =
  newRelicEnabled :: bool
  prometheusEnabled :: bool
  newError :: "int \<Rightarrow> string \<Rightarrow> string \<Rightarrow> error"

text \<open>
  The deferred calls are a stack: the head is the call deferred last, which runs first.
  After lines 116-125 it holds:
\<close>

definition entryDefers :: "globals \<Rightarrow> deferred list" where
  "entryDefers gl =
     (if prometheusEnabled gl then [PrometheusDuration] else [])
     @ (if newRelicEnabled gl then [NewRelicCancel] else [])"

text \<open>
  A goroutine is at the \<open>select\<close> (lines 127-131), past line 132 in the body of the
  function, returning or panicking (its deferred calls run, last deferred first), or has
  left the function. \<open>ctxIsDone\<close> says whether the channel \<open>ctx.Done()\<close> of the request
  is closed; \<open>ranDeferred\<close> records the deferred calls that have run, in order;
  \<open>exit\<close> where the function was left, and whether by a return or a panic.
\<close>

datatype phase = Selecting | Processing | Exiting | Left

record goroutine =
  phase :: phase
  ctxIsDone :: bool
  defers :: "deferred list"
  ranDeferred :: "deferred list"
  exit :: "(exitPoint \<times> outcome) option"

record sys =
  sem :: nat
  gs :: "goroutine list"


text \<open>
  The steps. A request arrives and runs the prologue up to the \<open>select\<close>; the context
  of a request is cancelled; the \<open>select\<close> of a goroutine proceeds with the send (and
  line 132 defers the receive) or with the receive from \<open>ctx.Done()\<close>, which panics with
  the 499 error; the body of an admitted goroutine reaches one of its exits, having
  deferred what lies on the way; a returning or panicking goroutine runs its next deferred
  call, the deferred receive taking one value out of the channel, and leaves the function
  when none remains. \<open>None\<close>: the step cannot be taken in the state (the goroutine is
  elsewhere, or the channel operation blocks).
\<close>

datatype event =
  Arrive | CtxDone nat | SelectSend nat | SelectDone nat | Exit nat exitPoint error | Unwind nat

definition updateG :: "nat \<Rightarrow> (goroutine \<Rightarrow> goroutine) \<Rightarrow> sys \<Rightarrow> sys" where
  "updateG i f s = s\<lparr>gs := (gs s)[i := f (gs s ! i)]\<rparr>"

text \<open>The value of the panic at line 130.\<close>

definition cancelled :: "globals \<Rightarrow> error" where
  "cancelled gl = newError gl 499 ''Request was cancelled before processing'' ''Cancelled''"

fun step :: "config \<Rightarrow> globals \<Rightarrow> event \<Rightarrow> sys \<Rightarrow> sys option" where
  "step conf gl Arrive s =
     Some (s\<lparr>gs := gs s @ [\<lparr>phase = Selecting, ctxIsDone = False, defers = entryDefers gl,
                               ranDeferred = [], exit = None\<rparr>]\<rparr>)"
| "step conf gl (CtxDone i) s =
     (if i < length (gs s) then Some (updateG i (\<lambda>g. g\<lparr>ctxIsDone := True\<rparr>) s) else None)"
| "step conf gl (SelectSend i) s =
     (if i < length (gs s) \<and> phase (gs s ! i) = Selecting \<and> int (sem s) < Concurrency conf
      then Some ((updateG i (\<lambda>g. g\<lparr>phase := Processing, defers := ReceiveSem # defers g\<rparr>) s)
                   \<lparr>sem := sem s + 1\<rparr>)
      else None)"
| "step conf gl (SelectDone i) s =
     (if i < length (gs s) \<and> phase (gs s ! i) = Selecting \<and> ctxIsDone (gs s ! i)
      then Some (updateG i (\<lambda>g. g\<lparr>phase := Exiting,
                                    exit := Some (Line130, Panicked (cancelled gl))\<rparr>) s)
      else None)"
| "step conf gl (Exit i p err) s =
     (if i < length (gs s) \<and> phase (gs s ! i) = Processing \<and> p \<noteq> Line130
      then Some (updateG i (\<lambda>g. g\<lparr>phase := Exiting,
                                    defers := rev (registeredBy p) @ defers g,
                                    exit := Some (p, if panics p then Panicked err else Returned)\<rparr>) s)
      else None)"
| "step conf gl (Unwind i) s =
     (if i < length (gs s) \<and> phase (gs s ! i) = Exiting
      then (case defers (gs s ! i) of
              [] \<Rightarrow> Some (updateG i (\<lambda>g. g\<lparr>phase := Left\<rparr>) s)
            | d # ds \<Rightarrow>
                if d = ReceiveSem
                then (if sem s = 0 then None
                      else Some ((updateG i
                                   (\<lambda>g. g\<lparr>defers := ds, ranDeferred := ranDeferred g @ [d]\<rparr>) s)
                                   \<lparr>sem := sem s - 1\<rparr>))
                else Some (updateG i
                             (\<lambda>g. g\<lparr>defers := ds, ranDeferred := ranDeferred g @ [d]\<rparr>) s))
      else None)"







section \<open>Example values\<close>

text \<open>
  Concrete values at which the theorems below are instantiated. The collaborators of
  \<open>exampleEnv\<close> and the functions of \<open>exampleCodec\<close> are small stand-ins: a
  theorem that holds for every environment and every codec is applied to them.
\<close>

definition exampleConf :: config where
  "exampleConf =
     \<lparr>Concurrency = 2, WriteTimeout = 10, TTL = 3600, CacheControlPassthrough = True,
      ETagEnabled = True, GZipCompression = 0, EnableWebpDetection = False, EnforceWebp = False,
      EnableClientHints = True, OnlyPresets = False,
      Presets = [(''test1'', [urlOption ''resizing_type'' [''fill'']]),
                 (''test2'', [urlOption ''blur'' [''0.2''], urlOption ''quality'' [''50'']])],
      SkipProcessingFormats = [imageTypeSVG]\<rparr>"

definition examplePO :: processingOptions where
  "examplePO =
     \<lparr>ResizingType = resizeFit, Width = 0, Height = 0, Dpr = 1, Enlarge = False, Blur = 0,
      Sharpen = 0, Quality = 80, Format = imageTypeUnknown, PreferWebP = False,
      EnforceWebP = False, StripMetadata = True, CacheBuster = [], Filename = [],
      UsedPresets = []\<rparr>"

definition exampleImage :: imageData where
  "exampleImage = \<lparr>Data = [137, 80, 78, 71], Type = imageTypePNG\<rparr>"

definition exampleSVG :: imageData where
  "exampleSVG = \<lparr>Data = [60, 115, 118, 103, 47, 62], Type = imageTypeSVG\<rparr>"

definition exampleEnv :: env where
  "exampleEnv =
     \<lparr>parsePath = (\<lambda>r. Inr (''http://images.dev/lorem/ipsum.jpg'', examplePO)),
      downloadImage = (\<lambda>u. (exampleImage, [], [], None)),
      fallbackImage = None,
      ctxDone = (\<lambda>k. False),
      timeoutError = imgproxyError 500 ''Timeout exceeded'' ''Timeout'' False,
      processImage = (\<lambda>po img. ([255, 216, 255], None)),
      imageTypeSaveSupport = (\<lambda>t. t \<noteq> imageTypeSVG),
      imageTypeGoodForWeb = (\<lambda>t. t \<noteq> imageTypeTIFF),
      Mime = (\<lambda>t. if t = imageTypePNG then ''image/png'' else ''image/other''),
      ContentDisposition = (\<lambda>t n. ''inline; filename='' @ n),
      ContentDispositionFromURL = (\<lambda>t u. ''inline''),
      now = 0,
      formatHTTPTime = (\<lambda>t. ''ns='' @ fmtInt t)\<rparr>"

definition exampleCodec :: codec where
  "exampleCodec =
     \<lparr>sha256 = (\<lambda>bs. [word_of_nat (length bs), word_of_nat (sum_list (map unat bs))]),
      encodeConf = (\<lambda>c. bytesOfString (''{TTL:'' @ fmtInt (TTL c) @ ''}'')),
      encodePO = (\<lambda>po. bytesOfString (''{Quality:'' @ fmtInt (Quality po) @ ''}'')),
      version = ''2.15.0''\<rparr>"

definition exampleRequest :: request where
  "exampleRequest = \<lparr>RequestURI = ''/unsafe/plain/http://images.dev/lorem/ipsum.jpg'',
     Header = Map.empty\<rparr>"

definition newResponseWriter :: responseWriter where
  "newResponseWriter = \<lparr>rwHeader = Map.empty, rwStatus = None, rwStreams = [], rasterCalls = []\<rparr>"

definition exampleSink :: sink where
  "exampleSink = \<lparr>methods = [''Write'', ''Flush'', ''Close''], written = [], budget = None,
     flushes = 0, closes = 0\<rparr>"

definition exampleSinks :: sinks where
  "exampleSinks = [0 \<mapsto> exampleSink]"

definition examplePointers :: pointerStore where
  "examplePointers = \<lparr>nextKey = 1, saved = [0 \<mapsto> SinkRef 0]\<rparr>"

definition exampleIcon :: vipsImage where
  "exampleIcon = \<lparr>Xsize = 256, Ysize = 16\<rparr>"

text \<open>
  Three engines: one whose PNG encoder fails, one whose encoder pushes no bytes, one
  that pushes the PNG signature as its first chunk.
\<close>

definition failingVips :: vips where
  "failingVips = \<lparr>pngsave = (\<lambda>img. None), image_hasalpha = (\<lambda>img. False),
     error_buffer = ''pngsave: unable to write''\<rparr>"

definition silentVips :: vips where
  "silentVips = \<lparr>pngsave = (\<lambda>img. Some []), image_hasalpha = (\<lambda>img. True),
     error_buffer = []\<rparr>"

definition exampleVips :: vips where
  "exampleVips = \<lparr>pngsave = (\<lambda>img. Some [[137, 80, 78, 71, 13, 10, 26, 10]]),
     image_hasalpha = (\<lambda>img. True), error_buffer = []\<rparr>"






section \<open>Properties of the response headers\<close>

lemma natDigits_nonempty: "natDigits n \<noteq> []"
  by (induction n rule: natDigits.induct) (subst natDigits.simps, simp)

lemma ttlDuration_in_range:
  assumes "- 9223372036 \<le> t" and "t \<le> 9223372036"
  shows "ttlDuration t = t * 1000000000"
proof -
  have 1: "sint (word_of_int t :: 64 word) = t"
  proof -
    have "signed_take_bit 63 t = t"
      by (rule signed_take_bit_int_eq_self) (use assms in simp_all)
    then show ?thesis by (simp add: sint_sbintrunc')
  qed
  have 2: "signed_take_bit 63 (1000000000 * t) = 1000000000 * t"
    by (rule signed_take_bit_int_eq_self) (use assms in simp_all)
  show ?thesis
    unfolding ttlDuration_def by (simp add: sint_word_ariths 1 2)
qed

lemma prerespond_CacheControl:
  "rwHeader (fst (prerespondWithImage conf e url cc ex po r rw)) ''Cache-Control'' =
   (if CacheControlPassthrough conf \<and> (cc \<noteq> [] \<or> ex \<noteq> [])
    then (if cc \<noteq> [] then Some cc else rwHeader rw ''Cache-Control'')
    else Some (''max-age='' @ fmtInt (TTL conf) @ '', public''))"
  by (simp add: prerespondWithImage_def Let_def headerSet_def)

lemma prerespond_Expires:
  "rwHeader (fst (prerespondWithImage conf e url cc ex po r rw)) ''Expires'' =
   (if CacheControlPassthrough conf \<and> (cc \<noteq> [] \<or> ex \<noteq> [])
    then (if ex \<noteq> [] then Some ex else rwHeader rw ''Expires'')
    else (if formatHTTPTime e (now e + ttlDuration (TTL conf)) \<noteq> [] 
          then Some (formatHTTPTime e (now e + ttlDuration (TTL conf))) else rwHeader rw ''Expires''))"
  by (auto simp add: prerespondWithImage_def Let_def headerSet_def)

lemma prerespond_no_passthrough:
  "\<not> CacheControlPassthrough conf \<Longrightarrow>
     prerespondWithImage conf e url cc ex po r rw = prerespondWithImage conf e url cc' ex' po r rw"
  by (simp add: prerespondWithImage_def)

lemma prerespond_ETag:
  "rwHeader (fst (prerespondWithImage conf e url cc ex po r rw)) ''ETag'' = rwHeader rw ''ETag''"
  by (simp add: prerespondWithImage_def Let_def headerSet_def)

lemma prerespond_ContentType:
  "rwHeader (fst (prerespondWithImage conf e url cc ex po r rw)) ''Content-Type'' = Some (Mime e (Format po))"
  by (simp add: prerespondWithImage_def Let_def headerSet_def)

lemma prerespond_frame:
  "rwStatus (fst (prerespondWithImage conf e url cc ex po r rw)) = rwStatus rw"
  "rwStreams (fst (prerespondWithImage conf e url cc ex po r rw)) = rwStreams rw"
  "rasterCalls (fst (prerespondWithImage conf e url cc ex po r rw)) = rasterCalls rw"
  by (simp_all add: prerespondWithImage_def Let_def headerSet_def)

text \<open>
  Claim C9, as amended. The \<open>Cache-Control\<close> and \<open>Expires\<close> headers that
  \<open>prerespondWithImage\<close> writes (before any body byte: the writer of the body is what it
  returns) are the origin's values when \<open>CacheControlPassthrough\<close> is true and the origin
  supplied at least one of the two; the one the origin left empty is then not written.
  Otherwise (passthrough is false, or the origin supplied neither) they are synthesised:
  \<open>Cache-Control: max-age=<TTL>, public\<close> and \<open>Expires\<close> the formatted time
  \<open>TTL\<close> seconds after now (for a \<open>TTL\<close> whose nanoseconds fit 64 bits). With
  passthrough false the result does not depend on the origin's values at all.
\<close>

theorem prerespond_cache_headers:
  "(let h = rwHeader (fst (prerespondWithImage conf e url cc ex po r rw));
        synthExpires = formatHTTPTime e (now e + ttlDuration (TTL conf))
    in (CacheControlPassthrough conf \<and> (cc \<noteq> [] \<or> ex \<noteq> []) \<longrightarrow>
          h ''Cache-Control'' = (if cc \<noteq> [] then Some cc else rwHeader rw ''Cache-Control'')
          \<and> h ''Expires'' = (if ex \<noteq> [] then Some ex else rwHeader rw ''Expires''))
     \<and> (\<not> (CacheControlPassthrough conf \<and> (cc \<noteq> [] \<or> ex \<noteq> [])) \<longrightarrow>
          h ''Cache-Control'' = Some (''max-age='' @ fmtInt (TTL conf) @ '', public'')
          \<and> (synthExpires \<noteq> [] \<longrightarrow> h ''Expires'' = Some synthExpires))
     \<and> (0 \<le> TTL conf \<and> TTL conf \<le> 9223372036 \<longrightarrow>
          synthExpires = formatHTTPTime e (now e + TTL conf * 1000000000)))
   \<and> (\<not> CacheControlPassthrough conf \<longrightarrow>
        prerespondWithImage conf e url cc ex po r rw = prerespondWithImage conf e url cc' ex' po r rw)"
  unfolding Let_def
  using prerespond_no_passthrough [of conf e url cc ex po r rw cc' ex']
  by (auto simp add: prerespond_CacheControl prerespond_Expires ttlDuration_in_range)

lemma exampleConf_simps:
  "CacheControlPassthrough exampleConf" "TTL exampleConf = 3600" "ETagEnabled exampleConf"
  "GZipCompression exampleConf = 0" "SkipProcessingFormats exampleConf = [imageTypeSVG]"
  by (simp_all add: exampleConf_def)

lemma exampleEnv_simps:
  "now exampleEnv = 0" "formatHTTPTime exampleEnv ns = ''ns='' @ fmtInt ns"
  "imageTypeSaveSupport exampleEnv t = (t \<noteq> imageTypeSVG)"
  "imageTypeGoodForWeb exampleEnv t = (t \<noteq> imageTypeTIFF)"
  "ctxDone exampleEnv k = False" "fallbackImage exampleEnv = None"
  "parsePath exampleEnv r = Inr (''http://images.dev/lorem/ipsum.jpg'', examplePO)"
  "downloadImage exampleEnv u = (exampleImage, [], [], None)"
  "processImage exampleEnv po img = ([255, 216, 255], None)"
  "Mime exampleEnv t = (if t = imageTypePNG then ''image/png'' else ''image/other'')"
  by (simp_all add: exampleEnv_def)

lemma fmtInt_3600: "fmtInt 3600 = ''3600''" "fmtInt 3600000000000 = ''3600000000000''"
  by (simp_all add: fmtInt_def natDigits.simps digitChar_def)

lemma ttlDuration_3600: "ttlDuration 3600 = 3600000000000"
  by (simp add: ttlDuration_in_range)

text \<open>
  The theorem at the example configuration: an origin value passed through with
  passthrough on, the synthesised pair with passthrough off.
\<close>

theorem prerespond_cache_headers_witness:
  "rwHeader (fst (prerespondWithImage exampleConf exampleEnv ''u'' ''max-age=60'' [] examplePO
       exampleRequest newResponseWriter)) ''Cache-Control'' = Some ''max-age=60''
   \<and> rwHeader (fst (prerespondWithImage exampleConf exampleEnv ''u'' ''max-age=60'' [] examplePO
       exampleRequest newResponseWriter)) ''Expires'' = None
   \<and> rwHeader (fst (prerespondWithImage (exampleConf\<lparr>CacheControlPassthrough := False\<rparr>) exampleEnv
       ''u'' ''max-age=60'' [] examplePO exampleRequest newResponseWriter)) ''Cache-Control''
       = Some ''max-age=3600, public''
   \<and> rwHeader (fst (prerespondWithImage (exampleConf\<lparr>CacheControlPassthrough := False\<rparr>) exampleEnv
       ''u'' ''max-age=60'' [] examplePO exampleRequest newResponseWriter)) ''Expires''
       = Some ''ns=3600000000000''"
  using prerespond_cache_headers [of exampleConf exampleEnv "''u''" "''max-age=60''" "[]" examplePO
      exampleRequest newResponseWriter "''max-age=60''" "[]"]
    prerespond_cache_headers [of "exampleConf\<lparr>CacheControlPassthrough := False\<rparr>" exampleEnv
      "''u''" "''max-age=60''" "[]" examplePO exampleRequest newResponseWriter "''max-age=60''" "[]"]
  by (simp add: Let_def exampleConf_simps exampleEnv_simps fmtInt_3600 ttlDuration_3600
      newResponseWriter_def)

text \<open>
  Claim C9 as stated fails: with \<open>CacheControlPassthrough\<close> true and an origin that sent
  neither header, the response carries the synthesised values, not the origin's.
\<close>

theorem prerespond_passthrough_counterexample:
  "CacheControlPassthrough exampleConf
   \<and> rwHeader (fst (prerespondWithImage exampleConf exampleEnv ''u'' [] [] examplePO
         exampleRequest newResponseWriter)) ''Cache-Control'' = Some ''max-age=3600, public''
   \<and> rwHeader (fst (prerespondWithImage exampleConf exampleEnv ''u'' [] [] examplePO
         exampleRequest newResponseWriter)) ''Expires'' = Some ''ns=3600000000000''"
  by (simp add: prerespond_CacheControl prerespond_Expires exampleConf_simps exampleEnv_simps
      fmtInt_3600 ttlDuration_3600)

section \<open>Properties of format resolution\<close>

lemma respondWithImage_noskip:
  "\<not> skipProcessing conf po imgdata \<Longrightarrow>
   rasterCalls (fst (respondWithImage conf e r url po imgdata cc ex rw))
     = rasterCalls rw @ [(resolveFormat e po imgdata, imgdata)]"
  by (simp add: respondWithImage_def Let_def case_prod_beta writeBody_def prerespond_frame
      split: option.splits)

text \<open>
  Claim C4. The parser sets \<open>EnforceWebP\<close> only together with \<open>PreferWebP\<close> (both
  come from the same test of the \<open>Accept\<close> header), and the handler passes the parser's
  record on unchanged up to format resolution; for such a record: if \<open>Format\<close> is
  unknown, the resolved format is WebP when \<open>PreferWebP\<close> holds and the encoder supports
  WebP, else the source's detected type when the encoder can save it and it is good for
  the web, else JPEG; and whenever \<open>EnforceWebP\<close> holds and the encoder supports WebP,
  the resolved format is WebP. A known format is otherwise kept; no other field changes;
  and the resolved record is what the raster pipeline is called with whenever the
  skip-processing shortcut is not taken.
\<close>

theorem resolveFormat_spec:
  assumes "EnforceWebP po \<longrightarrow> PreferWebP po"
  shows "(Format po = imageTypeUnknown \<longrightarrow>
      Format (resolveFormat e po imgdata) =
        (if PreferWebP po \<and> imageTypeSaveSupport e imageTypeWEBP then imageTypeWEBP
         else if imageTypeSaveSupport e (Type imgdata) \<and> imageTypeGoodForWeb e (Type imgdata)
           then Type imgdata
         else imageTypeJPEG))
   \<and> (EnforceWebP po \<and> imageTypeSaveSupport e imageTypeWEBP \<longrightarrow>
      Format (resolveFormat e po imgdata) = imageTypeWEBP)
   \<and> (Format po \<noteq> imageTypeUnknown \<and> \<not> (EnforceWebP po \<and> imageTypeSaveSupport e imageTypeWEBP) \<longrightarrow>
      resolveFormat e po imgdata = po)
   \<and> resolveFormat e po imgdata = po\<lparr>Format := Format (resolveFormat e po imgdata)\<rparr>
   \<and> (\<not> skipProcessing conf po imgdata \<longrightarrow>
      rasterCalls (fst (respondWithImage conf e r url po imgdata cc ex rw))
        = rasterCalls rw @ [(resolveFormat e po imgdata, imgdata)])"
  using assms respondWithImage_noskip [of conf po imgdata e r url cc ex rw]
  by (auto simp add: resolveFormat_def)

text \<open>
  The theorem at example option records: WebP enforced with the format unknown and with
  the format given, nothing preferred, and a given format without enforcement.
\<close>

theorem resolveFormat_spec_witness:
  "Format (resolveFormat exampleEnv (examplePO\<lparr>PreferWebP := True, EnforceWebP := True\<rparr>) exampleImage)
     = imageTypeWEBP
   \<and> Format (resolveFormat exampleEnv examplePO exampleImage) = imageTypePNG
   \<and> Format (resolveFormat exampleEnv
        (examplePO\<lparr>Format := imageTypeGIF, PreferWebP := True, EnforceWebP := True\<rparr>)
        exampleImage) = imageTypeWEBP
   \<and> resolveFormat exampleEnv (examplePO\<lparr>Format := imageTypeGIF, PreferWebP := True\<rparr>) exampleImage
        = examplePO\<lparr>Format := imageTypeGIF, PreferWebP := True\<rparr>
   \<and> rasterCalls (fst (respondWithImage exampleConf exampleEnv exampleRequest ''u'' examplePO
        exampleImage [] [] newResponseWriter))
        = [(resolveFormat exampleEnv examplePO exampleImage, exampleImage)]"
  using resolveFormat_spec [of "examplePO\<lparr>PreferWebP := True, EnforceWebP := True\<rparr>" exampleEnv
      exampleImage exampleConf exampleRequest "''u''" "[]" "[]" newResponseWriter]
    resolveFormat_spec [of examplePO exampleEnv exampleImage exampleConf exampleRequest "''u''"
      "[]" "[]" newResponseWriter]
    resolveFormat_spec [of
      "examplePO\<lparr>Format := imageTypeGIF, PreferWebP := True, EnforceWebP := True\<rparr>" exampleEnv
      exampleImage exampleConf exampleRequest "''u''" "[]" "[]" newResponseWriter]
    resolveFormat_spec [of "examplePO\<lparr>Format := imageTypeGIF, PreferWebP := True\<rparr>" exampleEnv
      exampleImage exampleConf exampleRequest "''u''" "[]" "[]" newResponseWriter]
  by (simp add: examplePO_def exampleEnv_def exampleImage_def exampleConf_def skipProcessing_def
      newResponseWriter_def)

section \<open>Properties of the ETag computer\<close>

lemma calcETag_value:
  "fst (calcETag lib conf c0 D po) =
     hexEncodeToString (sha256 lib (sha256 lib (Data D) @ bytesOfString (version lib)
        @ encodeConf lib conf @ encodePO lib po))"
  by (simp add: calcETag_def Let_def hashReset_def hashWrite_def hashSum_def)

lemma calcETag_hashInput:
  "hashInput (snd (calcETag lib conf c0 D po)) =
     sha256 lib (Data D) @ bytesOfString (version lib) @ encodeConf lib conf @ encodePO lib po"
  by (simp add: calcETag_def Let_def hashReset_def hashWrite_def hashSum_def)

text \<open>
  Claim C1. For every image data \<open>D\<close> and option record \<open>po\<close>, \<open>calcETag\<close> returns
  the hex encoding of SHA-256 over the concatenation of \<open>SHA-256(D.Data)\<close>, the version
  string, what the JSON encoder writes for the configuration and what it writes for
  \<open>po\<close> (the encoder of the pool: no HTML escaping, no indentation; \<open>Encode\<close> ends
  each value with a newline, which is part of \<open>encodeConf\<close> and \<open>encodePO\<close>). The
  result does not depend on the state \<open>c0\<close> of the calculator the pool hands out, so two
  calls with the same data, options, version and configuration return the same string.
  Changing \<open>Quality\<close> alone changes the record given to the encoder, and, where the
  encoder writes different bytes for the two records, the bytes that are hashed.
\<close>

theorem calcETag_spec:
  "fst (calcETag lib conf c0 D po) =
     hexEncodeToString (sha256 lib (sha256 lib (Data D) @ bytesOfString (version lib)
        @ encodeConf lib conf @ encodePO lib po))
   \<and> fst (calcETag lib conf c0 D po) = fst (calcETag lib conf c1 D po)
   \<and> (q \<noteq> Quality po \<longrightarrow> po\<lparr>Quality := q\<rparr> \<noteq> po)
   \<and> (encodePO lib (po\<lparr>Quality := q\<rparr>) \<noteq> encodePO lib po \<longrightarrow>
        hashInput (snd (calcETag lib conf c0 D (po\<lparr>Quality := q\<rparr>)))
          \<noteq> hashInput (snd (calcETag lib conf c0 D po)))"
proof -
  have "po\<lparr>Quality := q\<rparr> \<noteq> po" if "q \<noteq> Quality po"
  proof
    assume "po\<lparr>Quality := q\<rparr> = po"
    then have "Quality (po\<lparr>Quality := q\<rparr>) = Quality po" by simp
    with that show False by simp
  qed
  then show ?thesis
    by (simp add: calcETag_value calcETag_hashInput)
qed

section \<open>Properties of \<open>handleProcessing\<close>\<close>

lemma hexEncodeToString_Nil: "hexEncodeToString bs = [] \<longleftrightarrow> bs = []"
  by (cases bs) (simp_all add: hexEncodeToString_def)

lemma headerSet_frame:
  "rwStreams (headerSet k v rw) = rwStreams rw" "rasterCalls (headerSet k v rw) = rasterCalls rw"
  "rwStatus (headerSet k v rw) = rwStatus rw" "rwHeader (headerSet k v rw) k = Some v"
  by (simp_all add: headerSet_def)

lemma handleProcessing_reach:
  assumes "parsePath e r = Inr (imgURL, po)"
    and "downloadImage e imgURL = (img0, cc, ex, derr)"
    and "(derr = None \<and> imgdata = img0) \<or> (derr \<noteq> None \<and> fallbackImage e = Some imgdata)"
    and "\<not> ctxDone e 1"
  shows "handleProcessing conf e lib c0 r rw
           = respondConditional conf e lib c0 r imgURL po imgdata cc ex rw"
  using assms by (auto simp add: handleProcessing_def split: option.splits)

lemma respondWithImage_skip:
  assumes "skipProcessing conf po imgdata"
  shows "rwStreams (fst (respondWithImage conf e r url po imgdata cc ex rw))
           = rwStreams rw @ [\<lparr>gzipped = snd (prerespondWithImage conf e url cc ex
                 (po\<lparr>Format := Type imgdata\<rparr>) r rw), payload = Data imgdata\<rparr>]"
    and "rasterCalls (fst (respondWithImage conf e r url po imgdata cc ex rw)) = rasterCalls rw"
    and "snd (respondWithImage conf e r url po imgdata cc ex rw) = Returned"
    and "rwHeader (fst (respondWithImage conf e r url po imgdata cc ex rw)) ''Content-Type''
           = Some (Mime e (Type imgdata))"
    and "rwStatus (fst (respondWithImage conf e r url po imgdata cc ex rw)) = rwStatus rw"
    and "rwHeader (fst (respondWithImage conf e r url po imgdata cc ex rw)) ''ETag''
           = rwHeader rw ''ETag''"
  using assms
  by (simp_all add: respondWithImage_def Let_def case_prod_beta writeBody_def prerespond_frame
      prerespond_ContentType prerespond_ETag)

lemma respondWithImage_process:
  assumes "\<not> skipProcessing conf po imgdata"
  shows "rwStreams (fst (respondWithImage conf e r url po imgdata cc ex rw))
           = rwStreams rw @ [\<lparr>gzipped = snd (prerespondWithImage conf e url cc ex
                 (resolveFormat e po imgdata) r rw),
               payload = fst (processImage e (resolveFormat e po imgdata) imgdata)\<rparr>]"
    and "rwStatus (fst (respondWithImage conf e r url po imgdata cc ex rw)) = rwStatus rw"
    and "rwHeader (fst (respondWithImage conf e r url po imgdata cc ex rw)) ''ETag''
           = rwHeader rw ''ETag''"
  using assms
  by (simp_all add: respondWithImage_def Let_def case_prod_beta writeBody_def prerespond_frame
      prerespond_ETag split: option.splits)

lemma respondWithImage_outcome:
  assumes "\<not> skipProcessing conf po imgdata"
  shows "snd (respondWithImage conf e r url po imgdata cc ex rw)
           = (case snd (processImage e (resolveFormat e po imgdata) imgdata) of
                Some er \<Rightarrow> Panicked er
              | None \<Rightarrow> if ctxDone e 3 then Panicked (timeoutError e) else Returned)"
  using assms
  by (simp add: respondWithImage_def Let_def case_prod_beta split: option.splits)

text \<open>
  Claim C3. Take a request that reaches the shortcut at line 178: it was parsed, the image
  data \<open>imgdata\<close> is the downloaded one or the fallback, the first two deadline checks
  passed and the request was not answered 304. The shortcut is taken exactly when the
  detected type is a member of \<open>SkipProcessingFormats\<close> and the requested format is the
  detected type or unknown. When it is taken, the handler writes one more body stream
  holding the source bytes unchanged, with the content type of the detected type, does not
  call the raster pipeline, and returns. When it is not taken, the raster pipeline is
  called (with the resolved format).
\<close>

theorem handleProcessing_skip:
  assumes "parsePath e r = Inr (imgURL, po)"
    and "downloadImage e imgURL = (img0, cc, ex, derr)"
    and "(derr = None \<and> imgdata = img0) \<or> (derr \<noteq> None \<and> fallbackImage e = Some imgdata)"
    and "\<not> ctxDone e 1" and "\<not> ctxDone e 2"
    and "\<not> (ETagEnabled conf
            \<and> fst (calcETag lib conf c0 imgdata po) = headerGet (Header r) ''If-None-Match'')"
  shows "(skipProcessing conf po imgdata \<longleftrightarrow>
            Type imgdata \<in> set (SkipProcessingFormats conf)
            \<and> (Format po = Type imgdata \<or> Format po = imageTypeUnknown))
     \<and> (skipProcessing conf po imgdata \<longrightarrow>
          map payload (rwStreams (fst (handleProcessing conf e lib c0 r rw)))
            = map payload (rwStreams rw) @ [Data imgdata]
          \<and> rasterCalls (fst (handleProcessing conf e lib c0 r rw)) = rasterCalls rw
          \<and> snd (handleProcessing conf e lib c0 r rw) = Returned
          \<and> rwHeader (fst (handleProcessing conf e lib c0 r rw)) ''Content-Type''
              = Some (Mime e (Type imgdata)))
     \<and> (\<not> skipProcessing conf po imgdata \<longrightarrow>
          rasterCalls (fst (handleProcessing conf e lib c0 r rw))
            = rasterCalls rw @ [(resolveFormat e po imgdata, imgdata)])"
proof -
  let ?rw1 = "if ETagEnabled conf
              then headerSet ''ETag'' (fst (calcETag lib conf c0 imgdata po)) rw else rw"
  have h: "handleProcessing conf e lib c0 r rw
             = respondWithImage conf e r imgURL po imgdata cc ex ?rw1"
    using assms(5,6)
    by (auto simp add: handleProcessing_reach [OF assms(1-4)] respondConditional_def Let_def)
  have f: "rwStreams ?rw1 = rwStreams rw" "rasterCalls ?rw1 = rasterCalls rw"
    by (simp_all add: headerSet_def)
  have s: "skipProcessing conf po imgdata \<longleftrightarrow>
            Type imgdata \<in> set (SkipProcessingFormats conf)
            \<and> (Format po = Type imgdata \<or> Format po = imageTypeUnknown)"
    by (auto simp add: skipProcessing_def)
  show ?thesis
    unfolding h
    using s respondWithImage_skip [of conf po imgdata e r imgURL cc ex ?rw1]
      respondWithImage_noskip [of conf po imgdata e r imgURL cc ex ?rw1]
    by (simp add: f)
qed

text \<open>
  Claim C2, as amended. Take a request that reaches the conditional step with
  \<open>ETagEnabled\<close>: it was parsed, \<open>imgdata\<close> is the downloaded image or, after a failed
  download, the fallback image, and the first deadline check passed. Then the \<open>ETag\<close>
  response header is \<open>calcETag\<close> of the bytes being processed and the option record.
  When \<open>If-None-Match\<close> equals it, the handler writes status 304, no body stream, does
  not call the raster pipeline and returns. When it differs, no 304 is written, and:
  if the deadline check that follows (line 176) fails, the handler panics with no body
  stream written; on the skip-processing shortcut it writes the source bytes and returns;
  otherwise the only bytes of the body are those the raster pipeline wrote, and the handler
  panics with the pipeline's error when there is one (line 217, the body then being what
  the pipeline had written before it failed, possibly nothing), and otherwise returns or
  panics at the last deadline check (line 220). So whenever the handler returns, exactly
  one body stream was written, and written completely.
\<close>

theorem handleProcessing_conditional:
  assumes "ETagEnabled conf"
    and "parsePath e r = Inr (imgURL, po)"
    and "downloadImage e imgURL = (img0, cc, ex, derr)"
    and "(derr = None \<and> imgdata = img0) \<or> (derr \<noteq> None \<and> fallbackImage e = Some imgdata)"
    and "\<not> ctxDone e 1"
  shows "rwHeader (fst (handleProcessing conf e lib c0 r rw)) ''ETag''
           = Some (fst (calcETag lib conf c0 imgdata po))
     \<and> (fst (calcETag lib conf c0 imgdata po) = headerGet (Header r) ''If-None-Match'' \<longrightarrow>
          rwStatus (fst (handleProcessing conf e lib c0 r rw)) = Some 304
          \<and> rwStreams (fst (handleProcessing conf e lib c0 r rw)) = rwStreams rw
          \<and> rasterCalls (fst (handleProcessing conf e lib c0 r rw)) = rasterCalls rw
          \<and> snd (handleProcessing conf e lib c0 r rw) = Returned)
     \<and> (fst (calcETag lib conf c0 imgdata po) \<noteq> headerGet (Header r) ''If-None-Match'' \<longrightarrow>
          rwStatus (fst (handleProcessing conf e lib c0 r rw)) = rwStatus rw
          \<and> (ctxDone e 2 \<longrightarrow>
                rwStreams (fst (handleProcessing conf e lib c0 r rw)) = rwStreams rw
                \<and> snd (handleProcessing conf e lib c0 r rw) = Panicked (timeoutError e))
          \<and> (\<not> ctxDone e 2 \<and> skipProcessing conf po imgdata \<longrightarrow>
                map payload (rwStreams (fst (handleProcessing conf e lib c0 r rw)))
                  = map payload (rwStreams rw) @ [Data imgdata]
                \<and> snd (handleProcessing conf e lib c0 r rw) = Returned)
          \<and> (\<not> ctxDone e 2 \<and> \<not> skipProcessing conf po imgdata \<longrightarrow>
                map payload (rwStreams (fst (handleProcessing conf e lib c0 r rw)))
                  = map payload (rwStreams rw)
                      @ [fst (processImage e (resolveFormat e po imgdata) imgdata)]
                \<and> (snd (processImage e (resolveFormat e po imgdata) imgdata) = Some er \<longrightarrow>
                     snd (handleProcessing conf e lib c0 r rw) = Panicked er)
                \<and> (snd (processImage e (resolveFormat e po imgdata) imgdata) = None \<longrightarrow>
                     snd (handleProcessing conf e lib c0 r rw)
                       = (if ctxDone e 3 then Panicked (timeoutError e) else Returned)))
          \<and> (snd (handleProcessing conf e lib c0 r rw) = Returned \<longrightarrow>
                length (rwStreams (fst (handleProcessing conf e lib c0 r rw)))
                  = length (rwStreams rw) + 1
                \<and> (\<not> skipProcessing conf po imgdata \<longrightarrow>
                     snd (processImage e (resolveFormat e po imgdata) imgdata) = None)))"
proof -
  let ?tag = "fst (calcETag lib conf c0 imgdata po)"
  let ?rw1 = "headerSet ''ETag'' ?tag rw"
  note f = headerSet_frame
  have h: "handleProcessing conf e lib c0 r rw
             = respondConditional conf e lib c0 r imgURL po imgdata cc ex rw"
    by (rule handleProcessing_reach [OF assms(2-5)])
  show ?thesis
  proof (cases "?tag = headerGet (Header r) ''If-None-Match''")
    case True
    then show ?thesis
      using assms(1) by (simp add: h respondConditional_def Let_def respondWithNotModified_def f)
  next
    case False
    show ?thesis
    proof (cases "ctxDone e 2")
      case True
      then show ?thesis
        using assms(1) False by (simp add: h respondConditional_def Let_def f)
    next
      case nt: False
      have h2: "handleProcessing conf e lib c0 r rw
                  = respondWithImage conf e r imgURL po imgdata cc ex ?rw1"
        using assms(1) False nt by (simp add: h respondConditional_def Let_def)
      show ?thesis
      proof (cases "skipProcessing conf po imgdata")
        case True
        then show ?thesis
          using False nt by (simp add: h2 respondWithImage_skip f)
      next
        case ns: False
        then show ?thesis
          using False nt
          by (auto simp add: h2 respondWithImage_process respondWithImage_outcome f
              split: option.splits)
      qed
    qed
  qed
qed

section \<open>The theorems at the example values\<close>

lemma exampleCodec_simps:
  "sha256 exampleCodec bs = [word_of_nat (length bs), word_of_nat (sum_list (map unat bs))]"
  "encodePO exampleCodec po = bytesOfString (''{Quality:'' @ fmtInt (Quality po) @ ''}'')"
  by (simp_all add: exampleCodec_def)

lemma exampleTag_nonempty: "fst (calcETag exampleCodec conf c0 D po) \<noteq> []"
  by (simp add: calcETag_value hexEncodeToString_Nil exampleCodec_simps)

lemma examplePO_simps:
  "Quality examplePO = 80" "Format examplePO = imageTypeUnknown" "PreferWebP examplePO = False"
  "EnforceWebP examplePO = False" "Filename examplePO = []"
  by (simp_all add: examplePO_def)

lemma exampleImage_simps:
  "Type exampleImage = imageTypePNG" "Type exampleSVG = imageTypeSVG"
  "Data exampleSVG = [60, 115, 118, 103, 47, 62]"
  by (simp_all add: exampleImage_def exampleSVG_def)

lemma exampleRequest_simps: "headerGet (Header exampleRequest) k = []"
  by (simp add: exampleRequest_def headerGet_def)

lemma newResponseWriter_simps:
  "rwStreams newResponseWriter = []" "rasterCalls newResponseWriter = []"
  "rwStatus newResponseWriter = None" "rwHeader newResponseWriter k = None"
  by (simp_all add: newResponseWriter_def)

text \<open>
  Claim C1 at the example codec: a calculator with leftover input gives the same tag as a
  fresh one, and quality 50 instead of 80 changes the hashed bytes.
\<close>

theorem calcETag_spec_witness:
  "fst (calcETag exampleCodec exampleConf \<lparr>hashInput = [1, 2, 3]\<rparr> exampleImage examplePO)
     = fst (calcETag exampleCodec exampleConf \<lparr>hashInput = []\<rparr> exampleImage examplePO)
   \<and> examplePO\<lparr>Quality := 50\<rparr> \<noteq> examplePO
   \<and> hashInput (snd (calcETag exampleCodec exampleConf \<lparr>hashInput = [1, 2, 3]\<rparr> exampleImage
        (examplePO\<lparr>Quality := 50\<rparr>)))
      \<noteq> hashInput (snd (calcETag exampleCodec exampleConf \<lparr>hashInput = [1, 2, 3]\<rparr> exampleImage
        examplePO))"
proof -
  have q: "(50::int) \<noteq> Quality examplePO"
    by (simp add: examplePO_simps)
  have e: "encodePO exampleCodec (examplePO\<lparr>Quality := 50\<rparr>) \<noteq> encodePO exampleCodec examplePO"
    by (simp add: exampleCodec_simps examplePO_simps bytesOfString_def fmtInt_def
        natDigits.simps digitChar_def)
  show ?thesis
    using calcETag_spec [of exampleCodec exampleConf "\<lparr>hashInput = [1, 2, 3]\<rparr>" exampleImage
        examplePO "\<lparr>hashInput = []\<rparr>" 50] q e
    by blast
qed

text \<open>
  Claim C3 at examples: an SVG source with SVG in \<open>SkipProcessingFormats\<close> is streamed
  unchanged without the raster pipeline; a PNG source goes through it.
\<close>

theorem handleProcessing_skip_witness:
  "map payload (rwStreams (fst (handleProcessing (exampleConf\<lparr>ETagEnabled := False\<rparr>)
       (exampleEnv\<lparr>downloadImage := (\<lambda>u. (exampleSVG, [], [], None))\<rparr>) exampleCodec
       \<lparr>hashInput = []\<rparr> exampleRequest newResponseWriter)))
     = [[60, 115, 118, 103, 47, 62]]
   \<and> rasterCalls (fst (handleProcessing (exampleConf\<lparr>ETagEnabled := False\<rparr>)
       (exampleEnv\<lparr>downloadImage := (\<lambda>u. (exampleSVG, [], [], None))\<rparr>) exampleCodec
       \<lparr>hashInput = []\<rparr> exampleRequest newResponseWriter)) = []
   \<and> snd (handleProcessing (exampleConf\<lparr>ETagEnabled := False\<rparr>)
       (exampleEnv\<lparr>downloadImage := (\<lambda>u. (exampleSVG, [], [], None))\<rparr>) exampleCodec
       \<lparr>hashInput = []\<rparr> exampleRequest newResponseWriter) = Returned
   \<and> rasterCalls (fst (handleProcessing (exampleConf\<lparr>ETagEnabled := False\<rparr>) exampleEnv
       exampleCodec \<lparr>hashInput = []\<rparr> exampleRequest newResponseWriter))
     = [(resolveFormat exampleEnv examplePO exampleImage, exampleImage)]"
proof -
  let ?conf = "exampleConf\<lparr>ETagEnabled := False\<rparr>"
  let ?env = "exampleEnv\<lparr>downloadImage := (\<lambda>u. (exampleSVG, [], [], None))\<rparr>"
  have a: "skipProcessing ?conf examplePO exampleSVG"
    by (simp add: skipProcessing_def exampleConf_simps examplePO_simps exampleImage_simps)
  have b: "\<not> skipProcessing ?conf examplePO exampleImage"
    by (simp add: skipProcessing_def exampleConf_simps examplePO_simps exampleImage_simps)
  have r: "resolveFormat ?env examplePO exampleImage = resolveFormat exampleEnv examplePO exampleImage"
    by (simp add: resolveFormat_def)
  note t1 = handleProcessing_skip [of ?env exampleRequest "''http://images.dev/lorem/ipsum.jpg''"
      examplePO exampleSVG "[]" "[]" None exampleSVG ?conf exampleCodec "\<lparr>hashInput = []\<rparr>"
      newResponseWriter]
  note t2 = handleProcessing_skip [of exampleEnv exampleRequest
      "''http://images.dev/lorem/ipsum.jpg''" examplePO exampleImage "[]" "[]" None exampleImage
      ?conf exampleCodec "\<lparr>hashInput = []\<rparr>" newResponseWriter]
  show ?thesis
    using t1 t2 a b
    by (simp add: exampleEnv_simps newResponseWriter_simps exampleImage_simps)
qed

text \<open>
  Claim C2 at examples: a request whose \<open>If-None-Match\<close> is the tag gets 304 and no
  body; one without the header gets the tag, no 304 and one body stream, the output of
  the raster pipeline, and the handler returns.
\<close>

theorem handleProcessing_conditional_witness:
  "rwStatus (fst (handleProcessing exampleConf exampleEnv exampleCodec \<lparr>hashInput = []\<rparr>
       (exampleRequest\<lparr>Header := [''If-None-Match'' \<mapsto>
           fst (calcETag exampleCodec exampleConf \<lparr>hashInput = []\<rparr> exampleImage examplePO)]\<rparr>)
       newResponseWriter)) = Some 304
   \<and> rwStreams (fst (handleProcessing exampleConf exampleEnv exampleCodec \<lparr>hashInput = []\<rparr>
       (exampleRequest\<lparr>Header := [''If-None-Match'' \<mapsto>
           fst (calcETag exampleCodec exampleConf \<lparr>hashInput = []\<rparr> exampleImage examplePO)]\<rparr>)
       newResponseWriter)) = []
   \<and> rwHeader (fst (handleProcessing exampleConf exampleEnv exampleCodec \<lparr>hashInput = []\<rparr>
       exampleRequest newResponseWriter)) ''ETag''
       = Some (fst (calcETag exampleCodec exampleConf \<lparr>hashInput = []\<rparr> exampleImage examplePO))
   \<and> rwStatus (fst (handleProcessing exampleConf exampleEnv exampleCodec \<lparr>hashInput = []\<rparr>
       exampleRequest newResponseWriter)) = None
   \<and> map payload (rwStreams (fst (handleProcessing exampleConf exampleEnv exampleCodec
       \<lparr>hashInput = []\<rparr> exampleRequest newResponseWriter))) = [[255, 216, 255]]
   \<and> snd (handleProcessing exampleConf exampleEnv exampleCodec
       \<lparr>hashInput = []\<rparr> exampleRequest newResponseWriter) = Returned"
proof -
  let ?tag = "fst (calcETag exampleCodec exampleConf \<lparr>hashInput = []\<rparr> exampleImage examplePO)"
  let ?r = "exampleRequest\<lparr>Header := [''If-None-Match'' \<mapsto> ?tag]\<rparr>"
  have m: "headerGet (Header ?r) ''If-None-Match'' = ?tag"
    by (simp add: headerGet_def)
  have b: "\<not> skipProcessing exampleConf examplePO exampleImage"
    by (simp add: skipProcessing_def exampleConf_simps examplePO_simps exampleImage_simps)
  note t1 = handleProcessing_conditional [of exampleConf exampleEnv ?r
      "''http://images.dev/lorem/ipsum.jpg''" examplePO exampleImage "[]" "[]" None exampleImage
      exampleCodec "\<lparr>hashInput = []\<rparr>" newResponseWriter "otherError []"]
  note t2 = handleProcessing_conditional [of exampleConf exampleEnv exampleRequest
      "''http://images.dev/lorem/ipsum.jpg''" examplePO exampleImage "[]" "[]" None exampleImage
      exampleCodec "\<lparr>hashInput = []\<rparr>" newResponseWriter "otherError []"]
  show ?thesis
    using t1 t2 m b exampleTag_nonempty [of exampleConf "\<lparr>hashInput = []\<rparr>" exampleImage examplePO]
    by (simp add: exampleEnv_simps exampleConf_simps newResponseWriter_simps
        exampleRequest_simps)
qed

text \<open>
  Claim C2 as stated fails: with an \<open>If-None-Match\<close> that differs from the tag, the
  handler panics when the context is done at the second deadline check, and when the raster
  pipeline fails before it has written anything: neither 304 nor a byte of the body.
\<close>

theorem handleProcessing_conditional_counterexample:
  "ETagEnabled exampleConf
   \<and> fst (calcETag exampleCodec exampleConf \<lparr>hashInput = []\<rparr> exampleImage examplePO)
       \<noteq> headerGet (Header exampleRequest) ''If-None-Match''
   \<and> rwStatus (fst (handleProcessing exampleConf (exampleEnv\<lparr>ctxDone := (\<lambda>k. k = 2)\<rparr>)
         exampleCodec \<lparr>hashInput = []\<rparr> exampleRequest newResponseWriter)) = None
   \<and> rwStreams (fst (handleProcessing exampleConf (exampleEnv\<lparr>ctxDone := (\<lambda>k. k = 2)\<rparr>)
         exampleCodec \<lparr>hashInput = []\<rparr> exampleRequest newResponseWriter)) = []
   \<and> snd (handleProcessing exampleConf (exampleEnv\<lparr>ctxDone := (\<lambda>k. k = 2)\<rparr>)
         exampleCodec \<lparr>hashInput = []\<rparr> exampleRequest newResponseWriter)
       = Panicked (imgproxyError 500 ''Timeout exceeded'' ''Timeout'' False)
   \<and> rwStatus (fst (handleProcessing exampleConf
         (exampleEnv\<lparr>processImage := (\<lambda>po img. ([], Some (otherError ''vips'')))\<rparr>)
         exampleCodec \<lparr>hashInput = []\<rparr> exampleRequest newResponseWriter)) = None
   \<and> concat (map payload (rwStreams (fst (handleProcessing exampleConf
         (exampleEnv\<lparr>processImage := (\<lambda>po img. ([], Some (otherError ''vips'')))\<rparr>)
         exampleCodec \<lparr>hashInput = []\<rparr> exampleRequest newResponseWriter)))) = []
   \<and> snd (handleProcessing exampleConf
         (exampleEnv\<lparr>processImage := (\<lambda>po img. ([], Some (otherError ''vips'')))\<rparr>)
         exampleCodec \<lparr>hashInput = []\<rparr> exampleRequest newResponseWriter)
       = Panicked (otherError ''vips'')"
  using exampleTag_nonempty [of exampleConf "\<lparr>hashInput = []\<rparr>" exampleImage examplePO]
  by (simp add: handleProcessing_def respondConditional_def respondWithImage_def Let_def
      exampleEnv_def skipProcessing_def examplePO_simps exampleImage_simps writeBody_def
      case_prod_beta prerespond_frame
      exampleConf_simps exampleRequest_simps headerSet_def newResponseWriter_def)

section \<open>Properties of the raster adapter\<close>

lemma implements_UnsafePointer: "implements ss (UnsafePointer p) iface \<longleftrightarrow> iface = []"
  by (simp add: implements_def)

lemma implements_BytesBuffer: "implements ss (BytesBuffer b) iface \<longleftrightarrow> iface = []"
  by (simp add: implements_def)

lemma imgproxy_finish_id: "imgproxy_finish user ss = ss"
  by (simp add: imgproxy_finish_def Let_def implements_UnsafePointer)

lemma sinkWrite_counts:
  assumes "sinkWrite a bs ss = Return (r, ss')"
  shows "map_option flushes (ss' x) = map_option flushes (ss x)"
    and "map_option closes (ss' x) = map_option closes (ss x)"
  using assms
  by (auto simp add: sinkWrite_def split: option.splits if_splits)

lemma imgproxy_write_counts:
  assumes "imgproxy_write st user c ss = Return (n, ss')"
  shows "map_option flushes (ss' x) = map_option flushes (ss x)"
    and "map_option closes (ss' x) = map_option closes (ss x)"
  using assms
  by (auto simp add: imgproxy_write_def split: option.splits if_splits goValue.splits exec.splits
      dest: sinkWrite_counts)

lemma writeChunks_counts:
  "writeChunks st user cs ss = Return (ok, ss') \<Longrightarrow>
     map_option flushes (ss' x) = map_option flushes (ss x)
     \<and> map_option closes (ss' x) = map_option closes (ss x)"
proof (induction cs arbitrary: ss)
  case Nil
  then show ?case by simp
next
  case (Cons c cs)
  from Cons.prems obtain n ss1 where w: "imgproxy_write st user c ss = Return (n, ss1)"
    by (auto split: exec.splits)
  show ?case
  proof (cases "n < 0")
    case True
    with Cons.prems w have "ss' = ss1" by simp
    with imgproxy_write_counts [OF w] show ?thesis by simp
  next
    case False
    with Cons.prems w have "writeChunks st user cs ss1 = Return (ok, ss')" by simp
    from Cons.IH [OF this] imgproxy_write_counts [OF w] show ?thesis by simp
  qed
qed

lemma targetSave_counts:
  assumes "targetSave st user encoded ss = Return (rc, ss')"
  shows "map_option flushes (ss' x) = map_option flushes (ss x)
     \<and> map_option closes (ss' x) = map_option closes (ss x)"
  using assms
  by (auto simp add: targetSave_def imgproxy_finish_id split: option.splits exec.splits if_splits
      dest: writeChunks_counts)

text \<open>
  Claim C10. For every pointer \<open>user\<close> and every store of sinks, \<open>imgproxy_finish\<close>
  changes nothing: the value it asserts on is the raw pointer, whose method set is
  empty, so neither assertion succeeds. In particular a sink saved under \<open>user\<close> is
  left as it is, and a whole save into the target leaves the flush and close counts of
  every sink unchanged.
\<close>

theorem imgproxy_finish_noop:
  "imgproxy_finish user ss = ss
   \<and> (pointerRestore st user = Some (SinkRef a) \<and> ss a = Some s \<longrightarrow>
        imgproxy_finish user ss a = Some s)
   \<and> (targetSave st user encoded ss = Return (rc, ss') \<longrightarrow>
        map_option flushes (ss' x) = map_option flushes (ss x)
        \<and> map_option closes (ss' x) = map_option closes (ss x))"
  using targetSave_counts [of st user encoded ss rc ss' x]
  by (simp add: imgproxy_finish_id)

lemma writeAll_written:
  "writeAll w bss ss = Return (None, ss') \<Longrightarrow>
     map_option written (ss' w) = map_option (\<lambda>old. old @ concat bss) (map_option written (ss w))"
proof (induction bss arbitrary: ss)
  case Nil
  then show ?case by (simp add: option.map_comp comp_def option.map_ident)
next
  case (Cons bs bss)
  from Cons.prems obtain ss1 where
    w: "sinkWrite w bs ss = Return (None, ss1)" and r: "writeAll w bss ss1 = Return (None, ss')"
    by (auto split: exec.splits option.splits)
  from w have "map_option written (ss1 w) = map_option (\<lambda>old. old @ bs) (map_option written (ss w))"
    by (auto simp add: sinkWrite_def split: option.splits if_splits)
  with Cons.IH [OF r] show ?case
    by (simp add: option.map_comp comp_def)
qed

lemma writeAll_sink:
  "writeAll w (bs # bss) ss = Return r \<Longrightarrow> ss w \<noteq> None"
  by (auto simp add: sinkWrite_def split: exec.splits option.splits)

lemma targetSave_BytesBuffer:
  assumes "pointerRestore st user = Some (BytesBuffer b)"
  shows "targetSave st user encoded ss =
     (case encoded of None \<Rightarrow> Return (- 1, ss) | Some [] \<Rightarrow> Return (0, ss)
      | Some (c # cs) \<Rightarrow> Panic ''interface conversion: missing method Write'')"
  using assms
  by (simp add: targetSave_def imgproxy_write_def implements_BytesBuffer imgproxy_finish_id
      split: option.splits list.splits)

lemma pointerRestore_Save:
  "pointerRestore (snd (pointerSave v st)) (fst (pointerSave v st)) = Some v"
  by (simp add: pointerSave_def pointerRestore_def)

lemma SaveAsIco_unfold:
  "SaveAsIco v img w st ss =
    (if Xsize img > 256 \<or> Ysize img > 256
     then Return (Some ''Image dimensions is too big. Max dimension size for ICO is 256'', ss)
     else case pngsave v img of
            None \<Rightarrow> Return (Some (error_buffer v), ss)
          | Some [] \<Rightarrow>
              writeAll w
                [[0, 0, 1, 0, 1, 0], [icoDimension (Xsize img), icoDimension (Ysize img)], [0], [0],
                 [1, 0], (if image_hasalpha v img then [32, 0] else [24, 0]), putUint32LE 0,
                 [22, 0, 0, 0], []] ss
          | Some (c # cs) \<Rightarrow> Panic ''interface conversion: missing method Write'')"
  by (simp add: SaveAsIco_def Let_def case_prod_beta targetSave_BytesBuffer [OF pointerRestore_Save]
      split: option.splits list.splits)

lemma byte_256: "(256 :: byte) = 0"
  by simp

lemma icoDimension_low_byte: "icoDimension x = word_of_int x"
proof -
  have "x smod 256 = x - 256 * (x sdiv 256)"
    by (simp add: minus_mult_sdiv_eq_smod)
  then have "(word_of_int (x smod 256) :: byte) = word_of_int x - 256 * word_of_int (x sdiv 256)"
    by simp
  moreover have "(256 :: byte) = 0"
    by simp
  ultimately show ?thesis
    by (simp add: icoDimension_def)
qed

lemma icoDimension_uint: "uint (icoDimension x) = x mod 256"
  by (simp add: icoDimension_low_byte uint_word_of_int)

text \<open>
  What \<open>SaveAsIco\<close> does when it returns. It returns the dimension error, nothing
  written, whenever width or height exceeds 256. When it returns without an error, both are
  at most 256 and the sink received the 6-byte ICONDIR \<open>0,0,1,0,1,0\<close>, then the
  ICONDIRENTRY: width % 256, height % 256, 0, 0, planes \<open>1,0\<close>, bits per pixel 32 with
  alpha and 24 without, four bytes of data size, the offset \<open>22,0,0,0\<close>; then the
  image data. The dimension byte of \<open>x\<close> is \<open>x mod 256\<close>, so 256 is encoded as 0.
\<close>

lemma SaveAsIco_returns:
  "(Xsize img > 256 \<or> Ysize img > 256 \<longrightarrow>
      SaveAsIco v img w st ss
        = Return (Some ''Image dimensions is too big. Max dimension size for ICO is 256'', ss))
   \<and> (SaveAsIco v img w st ss = Return (None, ss') \<longrightarrow>
        Xsize img \<le> 256 \<and> Ysize img \<le> 256
        \<and> (\<exists>old sz data.
             map_option written (ss w) = Some old \<and> length sz = 4
             \<and> map_option written (ss' w) =
                 Some (old @ [0, 0, 1, 0, 1, 0]
                   @ [icoDimension (Xsize img), icoDimension (Ysize img), 0, 0, 1, 0,
                      (if image_hasalpha v img then 32 else 24), 0]
                   @ sz @ [22, 0, 0, 0] @ data)))
   \<and> uint (icoDimension x) = x mod 256
   \<and> icoDimension 256 = 0"
proof -
  have big: "SaveAsIco v img w st ss
        = Return (Some ''Image dimensions is too big. Max dimension size for ICO is 256'', ss)"
    if "Xsize img > 256 \<or> Ysize img > 256"
    using that by (simp add: SaveAsIco_def)
  have ok: "Xsize img \<le> 256 \<and> Ysize img \<le> 256
        \<and> (\<exists>old sz data.
             map_option written (ss w) = Some old \<and> length sz = 4
             \<and> map_option written (ss' w) =
                 Some (old @ [0, 0, 1, 0, 1, 0]
                   @ [icoDimension (Xsize img), icoDimension (Ysize img), 0, 0, 1, 0,
                      (if image_hasalpha v img then 32 else 24), 0]
                   @ sz @ [22, 0, 0, 0] @ data))"
    if r: "SaveAsIco v img w st ss = Return (None, ss')"
  proof -
    let ?slices = "[[0, 0, 1, 0, 1, 0], [icoDimension (Xsize img), icoDimension (Ysize img)],
        [0], [0], [1, 0], (if image_hasalpha v img then [32, 0] else [24, 0]), putUint32LE 0,
        [22, 0, 0, 0], []] :: byte list list"
    from r have dims: "Xsize img \<le> 256 \<and> Ysize img \<le> 256"
      by (auto simp add: SaveAsIco_unfold split: if_splits)
    from r dims have wr: "writeAll w ?slices ss = Return (None, ss')"
      by (auto simp add: SaveAsIco_unfold split: option.splits list.splits if_splits)
    from writeAll_sink [OF wr] obtain s where s: "ss w = Some s" by auto
    from writeAll_written [OF wr] s
    have "map_option written (ss' w) = Some (written s @ concat ?slices)" by simp
    moreover have "concat ?slices = [0, 0, 1, 0, 1, 0]
           @ [icoDimension (Xsize img), icoDimension (Ysize img), 0, 0, 1, 0,
              (if image_hasalpha v img then 32 else 24), 0]
           @ putUint32LE 0 @ [22, 0, 0, 0] @ []"
      by simp
    ultimately have "map_option written (ss' w) =
        Some (written s @ [0, 0, 1, 0, 1, 0]
           @ [icoDimension (Xsize img), icoDimension (Ysize img), 0, 0, 1, 0,
              (if image_hasalpha v img then 32 else 24), 0]
           @ putUint32LE 0 @ [22, 0, 0, 0] @ [])"
      by (simp only:)
    moreover have "length (putUint32LE 0) = 4" by (simp add: putUint32LE_def)
    moreover have "map_option written (ss w) = Some (written s)" using s by simp
    ultimately show ?thesis using dims by blast
  qed
  have z: "icoDimension 256 = 0"
    by (simp add: icoDimension_low_byte)
  from big ok z icoDimension_uint [of x] show ?thesis by blast
qed

lemma exampleIcon_simps: "Xsize exampleIcon = 256" "Ysize exampleIcon = 16"
  by (simp_all add: exampleIcon_def)

lemma SaveAsIco_silent:
  "SaveAsIco silentVips exampleIcon 0 examplePointers exampleSinks
     = Return (None, [0 \<mapsto> exampleSink\<lparr>written :=
         [0, 0, 1, 0, 1, 0, 0, 16, 0, 0, 1, 0, 32, 0, 0, 0, 0, 0, 22, 0, 0, 0]\<rparr>])"
  by (simp add: SaveAsIco_unfold silentVips_def exampleIcon_simps exampleSinks_def exampleSink_def
      sinkWrite_def icoDimension_low_byte putUint32LE_def byte_256)

text \<open>
  It also returns an error when the PNG encoder fails, although neither dimension exceeds
  256.
\<close>

lemma SaveAsIco_encoder_failure:
  "Xsize exampleIcon \<le> 256 \<and> Ysize exampleIcon \<le> 256
   \<and> SaveAsIco failingVips exampleIcon 0 examplePointers exampleSinks
       = Return (Some ''pngsave: unable to write'', exampleSinks)"
  by (simp add: SaveAsIco_unfold failingVips_def exampleIcon_simps)

text \<open>
  \<open>SaveAsIco\<close> hands \<open>pointer.Save\<close> the \<open>bytes.Buffer\<close> itself (line 231), where
  \<open>Save\<close> hands it the writer (line 195). The write callback restores that value, which
  has no \<open>Write\<close> method, and its conversion to \<open>io.Writer\<close> panics: with an encoder
  that pushes at least one chunk \<open>SaveAsIco\<close> does not return, and it returns without an
  error only when the encoder pushed nothing, the image data then being empty.
\<close>

lemma SaveAsIco_panics:
  "Xsize img \<le> 256 \<Longrightarrow> Ysize img \<le> 256 \<Longrightarrow> pngsave v img = Some (c # cs) \<Longrightarrow>
     SaveAsIco v img w st ss = Panic ''interface conversion: missing method Write''"
  by (simp add: SaveAsIco_unfold)

lemma SaveAsIco_success_empty:
  "SaveAsIco v img w st ss = Return (None, ss') \<Longrightarrow> pngsave v img = Some []"
  by (auto simp add: SaveAsIco_unfold split: if_splits option.splits list.splits)

text \<open>
  Claim C5 fails on the code. For a 256 x 16 image with alpha and an encoder that pushes
  the eight bytes of the PNG signature, the claim asks for the 22 bytes of ICONDIR and
  ICONDIRENTRY (the width byte being 0) followed by those eight bytes; \<open>SaveAsIco\<close> panics
  in the write callback and the sink receives nothing. (The same call of \<open>targetSave\<close>
  with the sink's own pointer, as \<open>Save\<close> makes it, delivers the eight bytes.)
\<close>

theorem SaveAsIco_defect:
  "Xsize exampleIcon \<le> 256 \<and> Ysize exampleIcon \<le> 256
   \<and> pngsave exampleVips exampleIcon = Some [[137, 80, 78, 71, 13, 10, 26, 10]]
   \<and> SaveAsIco exampleVips exampleIcon 0 examplePointers exampleSinks
       = Panic ''interface conversion: missing method Write''
   \<and> targetSave examplePointers 0 (pngsave exampleVips exampleIcon) exampleSinks
       = Return (0, [0 \<mapsto> exampleSink\<lparr>written := [137, 80, 78, 71, 13, 10, 26, 10]\<rparr>])"
proof -
  have r: "pointerRestore examplePointers 0 = Some (SinkRef 0)"
    by (simp add: pointerRestore_def examplePointers_def)
  have t: "targetSave examplePointers 0 (pngsave exampleVips exampleIcon) exampleSinks
       = Return (0, [0 \<mapsto> exampleSink\<lparr>written := [137, 80, 78, 71, 13, 10, 26, 10]\<rparr>])"
    by (simp add: targetSave_def imgproxy_write_def r implements_def sinkWrite_def
        exampleSinks_def exampleSink_def imgproxy_finish_id exampleVips_def)
  show ?thesis
    using t by (simp add: SaveAsIco_panics exampleVips_def exampleIcon_simps)
qed

text \<open>
  Claim C10 at an example: a sink with \<open>Flush\<close> and \<open>Close\<close>, saved under pointer 0,
  receives the bytes of a save and is neither flushed nor closed.
\<close>

theorem imgproxy_finish_noop_witness:
  "imgproxy_finish 0 exampleSinks 0 = Some exampleSink
   \<and> flushes exampleSink = 0 \<and> closes exampleSink = 0
   \<and> set [''Flush'', ''Close''] \<subseteq> set (methods exampleSink)
   \<and> targetSave examplePointers 0 (Some [[1, 2], [3]]) exampleSinks
       = Return (0, [0 \<mapsto> exampleSink\<lparr>written := [1, 2, 3]\<rparr>])
   \<and> map_option flushes ([0 \<mapsto> exampleSink\<lparr>written := [1, 2, 3]\<rparr>] 0) = Some 0
   \<and> map_option closes ([0 \<mapsto> exampleSink\<lparr>written := [1, 2, 3]\<rparr>] 0) = Some 0"
proof -
  have r: "pointerRestore examplePointers 0 = Some (SinkRef 0)"
    by (simp add: pointerRestore_def examplePointers_def)
  have s: "exampleSinks 0 = Some exampleSink"
    by (simp add: exampleSinks_def)
  have t: "targetSave examplePointers 0 (Some [[1, 2], [3]]) exampleSinks
       = Return (0, [0 \<mapsto> exampleSink\<lparr>written := [1, 2, 3]\<rparr>])"
    by (simp add: targetSave_def imgproxy_write_def r implements_def sinkWrite_def
        exampleSinks_def exampleSink_def imgproxy_finish_id)
  from imgproxy_finish_noop [of 0 exampleSinks examplePointers 0 exampleSink
      "Some [[1, 2], [3]]" 0 "[0 \<mapsto> exampleSink\<lparr>written := [1, 2, 3]\<rparr>]" 0] r s t
  show ?thesis
    by (simp add: exampleSink_def)
qed

section \<open>Properties of preset expansion\<close>

lemma preset_skip:
  "map_of presets n = Some body \<Longrightarrow> n \<in> set (UsedPresets (opts st)) \<Longrightarrow>
     applyProcessingOptions lib other presets (urlOption ''preset'' (n # ns) # rest) st
       = applyProcessingOptions lib other presets (urlOption ''preset'' ns # rest) st"
  by simp

lemma preset_expand:
  "map_of presets n = Some body \<Longrightarrow> n \<notin> set (UsedPresets (opts st)) \<Longrightarrow>
     applyProcessingOptions lib other presets (urlOption ''preset'' (n # ns) # rest) st
       = applyProcessingOptions lib other presets (body @ urlOption ''preset'' ns # rest)
           (st\<lparr>opts := (opts st)\<lparr>UsedPresets := UsedPresets (opts st) @ [n]\<rparr>\<rparr>)"
  by simp

lemma applyProcessingOptions_added:
  "applyProcessingOptions lib other presets work st = Inr st' \<Longrightarrow>
     \<exists>added. UsedPresets (opts st') = UsedPresets (opts st) @ added
        \<and> distinct added \<and> set added \<subseteq> fst ` set presets
        \<and> set added \<inter> set (UsedPresets (opts st)) = {}"
proof (induction lib other presets work st rule: applyProcessingOptions.induct)
  case (1 lib other presets st)
  then show ?case by simp
next
  case (2 lib other presets opt rest st)
  show ?case
  proof (cases "Name opt = ''preset''")
    case preset: True
    show ?thesis
    proof (cases "Args opt")
      case Nil
      with preset "2.prems" have "applyProcessingOptions lib other presets rest st = Inr st'"
        by simp
      from "2.IH"(1) [OF preset Nil this] show ?thesis .
    next
      case (Cons n ns)
      show ?thesis
      proof (cases "map_of presets n")
        case None
        with preset Cons "2.prems" show ?thesis by simp
      next
        case (Some body)
        show ?thesis
        proof (cases "n \<in> set (UsedPresets (opts st))")
          case True
          with preset Cons Some "2.prems"
          have "applyProcessingOptions lib other presets (urlOption ''preset'' ns # rest) st = Inr st'"
            by simp
          from "2.IH"(2) [OF preset Cons Some True this] show ?thesis .
        next
          case False
          let ?st1 = "st\<lparr>opts := (opts st)\<lparr>UsedPresets := UsedPresets (opts st) @ [n]\<rparr>\<rparr>"
          from False preset Cons Some "2.prems"
          have "applyProcessingOptions lib other presets (body @ urlOption ''preset'' ns # rest) ?st1
                  = Inr st'"
            by simp
          from "2.IH"(3) [OF preset Cons Some False this]
          obtain added where a: "UsedPresets (opts st') = UsedPresets (opts ?st1) @ added"
            "distinct added" "set added \<subseteq> fst ` set presets"
            "set added \<inter> set (UsedPresets (opts ?st1)) = {}"
            by blast
          have n: "n \<in> fst ` set presets"
            using Some by (metis domI dom_map_of_conv_image_fst)
          have "UsedPresets (opts st') = UsedPresets (opts st) @ (n # added)"
            using a(1) by simp
          moreover have "distinct (n # added)" using a(2,4) by auto
          moreover have "set (n # added) \<subseteq> fst ` set presets" using a(3) n by simp
          moreover have "set (n # added) \<inter> set (UsedPresets (opts st)) = {}"
            using a(4) False by auto
          ultimately show ?thesis by blast
        qed
      qed
    qed
  next
    case other: False
    with "2.prems" obtain st1 where
      s: "applyProcessingOption lib other opt st = Inr st1"
      and r: "applyProcessingOptions lib other presets rest st1 = Inr st'"
      by (auto split: sum.splits)
    from "2.IH"(4) [OF other s r] applyProcessingOption_UsedPresets [OF s]
    show ?thesis by simp
  qed
qed

lemma applyProcessingOptions_invariant:
  assumes "applyProcessingOptions lib other presets work st = Inr st'"
    and "distinct (UsedPresets (opts st))"
    and "set (UsedPresets (opts st)) \<subseteq> fst ` set presets"
  shows "distinct (UsedPresets (opts st'))"
    and "set (UsedPresets (opts st')) \<subseteq> fst ` set presets"
  using applyProcessingOptions_added [OF assms(1)] assms(2,3) by auto

lemma applyClientHints_UsedPresets:
  "UsedPresets (opts (applyClientHints lib conf hdr st)) = UsedPresets (opts st)"
  by (simp add: applyClientHints_def Let_def split: option.splits)

lemma parseOptions_UsedPresets:
  assumes "parseOptions lib other conf defaults hdr atoms = Inr po"
  shows "distinct (UsedPresets po)"
    and "set (UsedPresets po) \<subseteq> fst ` set (Presets conf)"
    and "length (UsedPresets po) \<le> card (fst ` set (Presets conf))"
proof -
  let ?st0 = "\<lparr>opts = defaults\<lparr>UsedPresets := []\<rparr>, widthSet = False, dprSet = False\<rparr>"
  from assms obtain work0 work st1 st2 where
    1: "applyProcessingOptions lib other (Presets conf) work0 ?st0 = Inr st1"
    and 2: "applyProcessingOptions lib other (Presets conf) work st1 = Inr st2"
    and po: "po = opts (applyClientHints lib conf hdr st2)"
    unfolding parseOptions_def applyURLOptions_def Let_def by (auto split: sum.splits)
  have d1: "distinct (UsedPresets (opts st1))"
    and s1: "set (UsedPresets (opts st1)) \<subseteq> fst ` set (Presets conf)"
    using applyProcessingOptions_invariant [OF 1] by simp_all
  show d: "distinct (UsedPresets po)"
    and s: "set (UsedPresets po) \<subseteq> fst ` set (Presets conf)"
    using applyProcessingOptions_invariant [OF 2 d1 s1]
    by (simp_all add: po applyClientHints_UsedPresets)
  have "length (UsedPresets po) = card (set (UsedPresets po))"
    using d by (simp add: distinct_card)
  also have "\<dots> \<le> card (fst ` set (Presets conf))"
    using s by (intro card_mono) simp_all
  finally show "length (UsedPresets po) \<le> card (fst ` set (Presets conf))" .
qed

text \<open>
  Claim C7. \<open>applyProcessingOptions\<close> is a total function (its termination is proved
  with its definition, for every table of presets, also self-referential and mutually
  referential ones, and every list of atoms). When it succeeds, \<open>UsedPresets\<close> has
  only grown: the new list is the old one followed by names that are distinct, are
  defined presets and were not in the old list. So the \<open>UsedPresets\<close> of a parsed
  request has no duplicates, holds defined presets only and has at most as many
  entries as there are defined presets. A preset atom expands its names in order: a
  name already in \<open>UsedPresets\<close> is skipped, any other is inserted and the atoms of
  its preset are applied in its place.
\<close>

theorem preset_expansion:
  "(applyProcessingOptions lib other presets work st = Inr st' \<longrightarrow>
      (\<exists>added. UsedPresets (opts st') = UsedPresets (opts st) @ added
         \<and> distinct added \<and> set added \<subseteq> fst ` set presets
         \<and> set added \<inter> set (UsedPresets (opts st)) = {}))
   \<and> (parseOptions lib other conf defaults hdr atoms = Inr po \<longrightarrow>
        distinct (UsedPresets po)
        \<and> set (UsedPresets po) \<subseteq> fst ` set (Presets conf)
        \<and> length (UsedPresets po) \<le> card (fst ` set (Presets conf)))
   \<and> (map_of presets n = Some body \<and> n \<in> set (UsedPresets (opts st)) \<longrightarrow>
        applyProcessingOptions lib other presets (urlOption ''preset'' (n # ns) # rest) st
          = applyProcessingOptions lib other presets (urlOption ''preset'' ns # rest) st)
   \<and> (map_of presets n = Some body \<and> n \<notin> set (UsedPresets (opts st)) \<longrightarrow>
        applyProcessingOptions lib other presets (urlOption ''preset'' (n # ns) # rest) st
          = applyProcessingOptions lib other presets (body @ urlOption ''preset'' ns # rest)
              (st\<lparr>opts := (opts st)\<lparr>UsedPresets := UsedPresets (opts st) @ [n]\<rparr>\<rparr>))"
  using applyProcessingOptions_added [of lib other presets work st st']
    parseOptions_UsedPresets [of lib other conf defaults hdr atoms po]
    preset_skip [of presets n body st lib other ns rest]
    preset_expand [of presets n body st lib other ns rest]
  by blast


text \<open>
  The path of the test \<open>TestParsePathAdvancedPresetLoopDetection\<close>, and presets that
  refer to each other and to themselves.
\<close>

lemma scenario_presets:
  "parseOptions exampleStrconv noOtherOptions exampleConf examplePO Map.empty
     (optionAtoms ''/unsafe/preset:test1:test2:test1/plain/http://images.dev/lorem/ipsum.jpg'')
   = Inr (examplePO\<lparr>ResizingType := resizeFill, Blur := 1 / 5, Quality := 50,
            UsedPresets := [''test1'', ''test2'']\<rparr>)"
  by code_simp

lemma scenario_cyclic:
  "parseOptions exampleStrconv noOtherOptions (exampleConf\<lparr>Presets := cyclicPresets\<rparr>) examplePO
     Map.empty [urlOption ''preset'' [''a'']]
   = Inr (examplePO\<lparr>Width := 10, Height := 20, Quality := 50,
            UsedPresets := [''a'', ''b'', ''c'']\<rparr>)"
  by code_simp

text \<open>
  Claim C7 at the test's path with the presets \<open>test1\<close> and \<open>test2\<close>:
  \<open>UsedPresets\<close> is \<open>test1, test2\<close>; and at the cyclic presets.
\<close>

theorem preset_expansion_witness:
  "parsePathOptions exampleStrconv noOtherOptions exampleConf examplePO
     (exampleRequest\<lparr>RequestURI :=
        ''/unsafe/preset:test1:test2:test1/plain/http://images.dev/lorem/ipsum.jpg''\<rparr>)
     = Inr (examplePO\<lparr>ResizingType := resizeFill, Blur := 1 / 5, Quality := 50,
              UsedPresets := [''test1'', ''test2'']\<rparr>)
   \<and> distinct [''test1'', ''test2'']
   \<and> set [''test1'', ''test2''] \<subseteq> fst ` set (Presets exampleConf)
   \<and> length [''test1'', ''test2''] \<le> card (fst ` set (Presets exampleConf))
   \<and> parseOptions exampleStrconv noOtherOptions (exampleConf\<lparr>Presets := cyclicPresets\<rparr>) examplePO
        Map.empty [urlOption ''preset'' [''a'']]
      = Inr (examplePO\<lparr>Width := 10, Height := 20, Quality := 50,
               UsedPresets := [''a'', ''b'', ''c'']\<rparr>)
   \<and> length [''a'', ''b'', ''c''] \<le> card (fst ` set cyclicPresets)"
proof -
  let ?po = "examplePO\<lparr>ResizingType := resizeFill, Blur := 1 / 5, Quality := 50,
              UsedPresets := [''test1'', ''test2'']\<rparr>"
  let ?po2 = "examplePO\<lparr>Width := 10, Height := 20, Quality := 50,
               UsedPresets := [''a'', ''b'', ''c'']\<rparr>"
  let ?st = "\<lparr>opts = examplePO, widthSet = False, dprSet = False\<rparr>"
  have h: "Header (exampleRequest\<lparr>RequestURI :=
        ''/unsafe/preset:test1:test2:test1/plain/http://images.dev/lorem/ipsum.jpg''\<rparr>) = Map.empty"
    by (simp add: exampleRequest_def)
  have p: "parsePathOptions exampleStrconv noOtherOptions exampleConf examplePO
     (exampleRequest\<lparr>RequestURI :=
        ''/unsafe/preset:test1:test2:test1/plain/http://images.dev/lorem/ipsum.jpg''\<rparr>)
     = Inr ?po"
    unfolding parsePathOptions_def h using scenario_presets by simp
  note t1 = preset_expansion [of exampleStrconv noOtherOptions "[]" "[]" ?st ?st exampleConf
      examplePO Map.empty
      "optionAtoms ''/unsafe/preset:test1:test2:test1/plain/http://images.dev/lorem/ipsum.jpg''"
      ?po "''test1''" "[]" "[]" "[]"]
  note t2 = preset_expansion [of exampleStrconv noOtherOptions "[]" "[]" ?st ?st
      "exampleConf\<lparr>Presets := cyclicPresets\<rparr>" examplePO Map.empty
      "[urlOption ''preset'' [''a'']]" ?po2 "''test1''" "[]" "[]" "[]"]
  from t1 scenario_presets have
    "distinct (UsedPresets ?po) \<and> set (UsedPresets ?po) \<subseteq> fst ` set (Presets exampleConf)
     \<and> length (UsedPresets ?po) \<le> card (fst ` set (Presets exampleConf))"
    by blast
  moreover from t2 scenario_cyclic have
    "length (UsedPresets ?po2) \<le> card (fst ` set (Presets (exampleConf\<lparr>Presets := cyclicPresets\<rparr>)))"
    by blast
  ultimately show ?thesis
    using p scenario_cyclic by simp
qed


section \<open>Properties of the client hints\<close>


lemma applyWidthOption_flags:
  "applyWidthOption lib args st = Inr st' \<Longrightarrow> widthSet st' \<and> dprSet st' = dprSet st"
  by (auto simp add: applyWidthOption_def split: list.splits option.splits if_splits)

lemma applyDprOption_flags:
  "applyDprOption lib args st = Inr st' \<Longrightarrow> dprSet st' \<and> widthSet st' = widthSet st"
  by (auto simp add: applyDprOption_def split: list.splits option.splits if_splits)

lemma applyHeightOption_flags:
  "applyHeightOption lib args st = Inr st' \<Longrightarrow> widthSet st' = widthSet st \<and> dprSet st' = dprSet st"
  by (auto simp add: applyHeightOption_def split: list.splits option.splits if_splits)

lemma applyEnlargeOption_flags:
  "applyEnlargeOption lib args st = Inr st' \<Longrightarrow> widthSet st' = widthSet st \<and> dprSet st' = dprSet st"
  by (auto simp add: applyEnlargeOption_def split: list.splits option.splits if_splits)

lemma applyResizingTypeOption_flags:
  "applyResizingTypeOption args st = Inr st' \<Longrightarrow>
     widthSet st' = widthSet st \<and> dprSet st' = dprSet st"
  by (auto simp add: applyResizingTypeOption_def split: list.splits option.splits if_splits)

lemma applySizeOption_flags:
  "applySizeOption lib args st = Inr st' \<Longrightarrow> widthSet st' \<and> dprSet st' = dprSet st"
  by (auto simp add: applySizeOption_def split: list.splits sum.splits
      dest!: applyWidthOption_flags applyHeightOption_flags applyEnlargeOption_flags)

lemma applyResizeOption_flags:
  "applyResizeOption lib args st = Inr st' \<Longrightarrow>
     (widthSet st \<longrightarrow> widthSet st') \<and> dprSet st' = dprSet st"
  by (auto simp add: applyResizeOption_def split: list.splits sum.splits
      dest!: applyResizingTypeOption_flags applySizeOption_flags)

lemma applyOtherSetters_flags:
  "applyQualityOption lib args st = Inr st' \<Longrightarrow> widthSet st' = widthSet st \<and> dprSet st' = dprSet st"
  "applyBlurOption lib args st = Inr st' \<Longrightarrow> widthSet st' = widthSet st \<and> dprSet st' = dprSet st"
  "applySharpenOption lib args st = Inr st' \<Longrightarrow> widthSet st' = widthSet st \<and> dprSet st' = dprSet st"
  "applyFormatOption args st = Inr st' \<Longrightarrow> widthSet st' = widthSet st \<and> dprSet st' = dprSet st"
  "applyCacheBusterOption args st = Inr st' \<Longrightarrow> widthSet st' = widthSet st \<and> dprSet st' = dprSet st"
  "applyStripMetadataOption lib args st = Inr st' \<Longrightarrow>
     widthSet st' = widthSet st \<and> dprSet st' = dprSet st"
  "applyFilenameOption args st = Inr st' \<Longrightarrow> widthSet st' = widthSet st \<and> dprSet st' = dprSet st"
  by (auto simp add: applyQualityOption_def applyBlurOption_def applySharpenOption_def
      applyFormatOption_def applyCacheBusterOption_def applyStripMetadataOption_def
      applyFilenameOption_def split: list.splits option.splits if_splits)

lemma applyProcessingOption_flags:
  assumes "applyProcessingOption lib other opt st = Inr st'"
  shows "widthSet st \<Longrightarrow> widthSet st'"
    and "dprSet st \<Longrightarrow> dprSet st'"
    and "Name opt = ''width'' \<Longrightarrow> widthSet st'"
    and "Name opt = ''dpr'' \<Longrightarrow> dprSet st'"
    and "Name opt \<notin> {''width'', ''size'', ''resize''} \<Longrightarrow> widthSet st' = widthSet st"
    and "Name opt \<noteq> ''dpr'' \<Longrightarrow> dprSet st' = dprSet st"
  using assms
  unfolding applyProcessingOption_def Let_def
  by (auto split: if_splits option.splits sum.splits
      dest!: applyWidthOption_flags applyDprOption_flags applyHeightOption_flags
        applyEnlargeOption_flags applyResizingTypeOption_flags applySizeOption_flags
        applyResizeOption_flags applyOtherSetters_flags)

lemma applyProcessingOptions_invariant_rule:
  fixes I :: "urlOptions \<Rightarrow> 'a parseState \<Rightarrow> bool"
  shows "applyProcessingOptions lib other presets work st = Inr st' \<Longrightarrow> I work st \<Longrightarrow>
    (\<And>opt rest st. Name opt = ''preset'' \<Longrightarrow> Args opt = [] \<Longrightarrow> I (opt # rest) st \<Longrightarrow> I rest st) \<Longrightarrow>
    (\<And>opt rest st n ns body. Name opt = ''preset'' \<Longrightarrow> Args opt = n # ns \<Longrightarrow>
        map_of presets n = Some body \<Longrightarrow> n \<in> set (UsedPresets (opts st)) \<Longrightarrow>
        I (opt # rest) st \<Longrightarrow> I (urlOption ''preset'' ns # rest) st) \<Longrightarrow>
    (\<And>opt rest st n ns body. Name opt = ''preset'' \<Longrightarrow> Args opt = n # ns \<Longrightarrow>
        map_of presets n = Some body \<Longrightarrow> n \<notin> set (UsedPresets (opts st)) \<Longrightarrow>
        I (opt # rest) st \<Longrightarrow>
        I (body @ urlOption ''preset'' ns # rest)
          (st\<lparr>opts := (opts st)\<lparr>UsedPresets := UsedPresets (opts st) @ [n]\<rparr>\<rparr>)) \<Longrightarrow>
    (\<And>opt rest st st1. Name opt \<noteq> ''preset'' \<Longrightarrow>
        applyProcessingOption lib other opt st = Inr st1 \<Longrightarrow> I (opt # rest) st \<Longrightarrow> I rest st1) \<Longrightarrow>
    I [] st'"
proof (induction lib other presets work st rule: applyProcessingOptions.induct)
  case (1 lib other presets st)
  then show ?case by simp
next
  case (2 lib other presets opt rest st)
  note res = "2.prems"(1) and inv = "2.prems"(2) and r1 = "2.prems"(3) and r2 = "2.prems"(4)
    and r3 = "2.prems"(5) and r4 = "2.prems"(6)
  show ?case
  proof (cases "Name opt = ''preset''")
    case preset: True
    show ?thesis
    proof (cases "Args opt")
      case Nil
      with preset res have "applyProcessingOptions lib other presets rest st = Inr st'"
        by simp
      from "2.IH"(1) [OF preset Nil this r1 [OF preset Nil inv] r1 r2 r3 r4] show ?thesis .
    next
      case (Cons n ns)
      show ?thesis
      proof (cases "map_of presets n")
        case None
        with preset Cons res show ?thesis by simp
      next
        case (Some body)
        show ?thesis
        proof (cases "n \<in> set (UsedPresets (opts st))")
          case True
          with preset Cons Some res
          have "applyProcessingOptions lib other presets (urlOption ''preset'' ns # rest) st = Inr st'"
            by simp
          from "2.IH"(2) [OF preset Cons Some True this r2 [OF preset Cons Some True inv]
              r1 r2 r3 r4]
          show ?thesis .
        next
          case False
          let ?st1 = "st\<lparr>opts := (opts st)\<lparr>UsedPresets := UsedPresets (opts st) @ [n]\<rparr>\<rparr>"
          from False preset Cons Some res
          have r: "applyProcessingOptions lib other presets (body @ urlOption ''preset'' ns # rest) ?st1
                  = Inr st'"
            by simp
          from "2.IH"(3) [OF preset Cons Some False r r3 [OF preset Cons Some False inv]
              r1 r2 r3 r4]
          show ?thesis .
        qed
      qed
    qed
  next
    case other: False
    with res obtain st1 where
      s: "applyProcessingOption lib other opt st = Inr st1"
      and r: "applyProcessingOptions lib other presets rest st1 = Inr st'"
      by (auto split: sum.splits)
    from "2.IH"(4) [OF other s r r4 [OF other s inv] r1 r2 r3 r4] show ?thesis .
  qed
qed

lemma widthSet_mono:
  assumes "applyProcessingOptions lib other presets work st = Inr st'" and "widthSet st"
  shows "widthSet st'"
  by (rule applyProcessingOptions_invariant_rule [OF assms(1), where I = "\<lambda>work st. widthSet st"])
    (use assms(2) in \<open>auto dest: applyProcessingOption_flags(1)\<close>)

lemma dprSet_mono:
  assumes "applyProcessingOptions lib other presets work st = Inr st'" and "dprSet st"
  shows "dprSet st'"
  by (rule applyProcessingOptions_invariant_rule [OF assms(1), where I = "\<lambda>work st. dprSet st"])
    (use assms(2) in \<open>auto dest: applyProcessingOption_flags(2)\<close>)





lemma noAtomNamed_preset:
  "''preset'' \<notin> names \<Longrightarrow>
     noAtomNamed names presets (map (\<lambda>atom. urlOption ''preset'' (f atom)) atoms)
       = noAtomNamed names presets []"
  by (auto simp add: noAtomNamed_def)

lemma noAtomNamed_weaken:
  "noAtomNamed names presets atoms \<Longrightarrow> noAtomNamed names presets []"
  by (simp add: noAtomNamed_def)















section \<open>Properties of the processing semaphore\<close>







lemma registeredBy_no_token: "ReceiveSem \<notin> set (registeredBy p)"
  by (cases p) simp_all



























lemma select_when_full:
  assumes "i < length (gs s)" "phase (gs s ! i) = Selecting" "ctxIsDone (gs s ! i)"
    and "\<not> int (sem s) < Concurrency conf"
  shows "step conf gl (SelectSend i) s = None"
    and "step conf gl (SelectDone i) s
           = Some (updateG i (\<lambda>g. g\<lparr>phase := Exiting,
                                    exit := Some (Line130, Panicked (cancelled gl))\<rparr>) s)"
  using assms by simp_all






end
